theory Spec2Isabelle
  imports Main "HOL-Library.Char_ord" "HOL-Library.List_Lexorder" "HOL-Library.Multiset"
begin

section \<open>SynapseNotify: the mailbox engine of synapsenotify.py\<close>

text \<open>
  The development follows class \<open>SynapseNotify\<close> of \<open>synapsenotify.py\<close>: the alert
  record, the per-agent mailbox files, alert creation with duplicate detection, the fan-out
  of a Synapse message, the queries and \<open>mark_read\<close>.

  Conventions of the embedding.
  \<^item> A Python \<open>str\<close> is a \<open>string\<close>; the text is taken to be ASCII, where \<open>str.upper\<close>
    changes the letters \<open>a\<close> to \<open>z\<close> only and \<open>len\<close> is the length of the list.
  \<^item> What \<open>json.load\<close> returns is a value of type \<open>json\<close>; an object lists each key
    once, in the order of the file. Numbers are integers (a float behaves as an integer
    does in every branch below, since no branch computes with a number).
  \<^item> A file is identified by the text of its path. Its content is of one of three kinds:
    text that \<open>json.load\<close> rejects with \<open>JSONDecodeError\<close>; content on which reading
    raises another exception (bytes that are not UTF-8, nesting beyond the recursion limit,
    an integer literal beyond the digit limit); or content that \<open>json.load\<close> turns into a
    value. Failures of the operating system (permissions, a full disk, a path that is a
    directory) are not modelled.
  \<^item> A method takes the world before the call and returns its outcome with the world after
    it. The outcome is \<open>Inr\<close> of the returned value, or \<open>Inl\<close> of the exception that
    leaves the method.
  \<^item> Names with a leading underscore lose it (\<open>_load_alerts\<close> is \<open>load_alerts\<close>).
\<close>

subsection \<open>JSON values and Python strings\<close>

datatype json =
    JNull
  | JBool bool
  | JNum int
  | JStr string
  | JArr "json list"
  | JObj "(string \<times> json) list"

text \<open>\<open>dict.get(key, default)\<close> on the items of a parsed object.\<close>

definition dict_get :: "(string \<times> json) list \<Rightarrow> string \<Rightarrow> json \<Rightarrow> json" where
  "dict_get kvs k dflt = (case map_of kvs k of Some v \<Rightarrow> v | None \<Rightarrow> dflt)"

text \<open>\<open>str.upper\<close> on ASCII text.\<close>

definition upper_char :: "char \<Rightarrow> char" where
  "upper_char c =
     (case map_of (zip ''abcdefghijklmnopqrstuvwxyz'' ''ABCDEFGHIJKLMNOPQRSTUVWXYZ'') c of
        Some u \<Rightarrow> u
      | None \<Rightarrow> c)"

definition py_upper :: "string \<Rightarrow> string" where
  "py_upper s = map upper_char s"

text \<open>
  \<open>s.replace(old, new)\<close>: every occurrence of \<open>old\<close> in \<open>s\<close>, found from the left without
  overlap, is replaced by \<open>new\<close>. With an empty \<open>old\<close> Python puts \<open>new\<close> before every
  character and at the end.
\<close>

function py_replace :: "string \<Rightarrow> string \<Rightarrow> string \<Rightarrow> string" where
  "py_replace old new [] = (if old = [] then new else [])"
| "py_replace old new (c # cs) =
     (if old = [] then new @ concat (map (\<lambda>x. x # new) (c # cs))
      else if take (length old) (c # cs) = old
        then new @ py_replace old new (drop (length old) (c # cs))
        else c # py_replace old new cs)"
  by pat_completeness auto
termination
  by (relation "measure (\<lambda>(old, new, s). length s)") auto

subsection \<open>Exceptions\<close>

text \<open>
  The exceptions that leave the methods modelled here. \<open>Untyped\<close> is not a Python
  exception: it marks the one place where this development stops following the program,
  a mailbox record whose field holds a value of another JSON type than the \<open>Alert\<close>
  dataclass declares for it (see \<open>from_dict\<close>).
\<close>

datatype py_error =
    TypeError
  | AttributeError
  | UnicodeDecodeError
  | RecursionError
  | ValueError
  | Untyped

fun map_res :: "('a \<Rightarrow> py_error + 'b) \<Rightarrow> 'a list \<Rightarrow> py_error + 'b list" where
  "map_res f [] = Inr []"
| "map_res f (x # xs) =
     (case f x of
        Inl e \<Rightarrow> Inl e
      | Inr y \<Rightarrow> (case map_res f xs of Inl e \<Rightarrow> Inl e | Inr ys \<Rightarrow> Inr (y # ys)))"

subsection \<open>Priority and Alert\<close>

datatype Priority = LOW | NORMAL | HIGH | CRITICAL

fun Priority_value :: "Priority \<Rightarrow> string" where
  "Priority_value LOW = ''LOW''"
| "Priority_value NORMAL = ''NORMAL''"
| "Priority_value HIGH = ''HIGH''"
| "Priority_value CRITICAL = ''CRITICAL''"

text \<open>\<open>Priority(v)\<close>: the member whose value is \<open>v\<close>; \<open>None\<close> stands for \<open>ValueError\<close>.\<close>

definition Priority_of :: "string \<Rightarrow> Priority option" where
  "Priority_of v =
     (if v = ''LOW'' then Some LOW
      else if v = ''NORMAL'' then Some NORMAL
      else if v = ''HIGH'' then Some HIGH
      else if v = ''CRITICAL'' then Some CRITICAL
      else None)"

text \<open>
  The fields of the dataclass. \<open>subject\<close> and \<open>preview\<close> hold whatever the caller passed:
  no method inspects them, and \<open>create_alerts_from_synapse_message\<close> passes values of a
  message as they are. The other fields are written by \<open>create_alert\<close> as text and as a
  boolean. The field \<open>id\<close> is \<open>id_alert\<close> here.
\<close>

record alert =
  id_alert :: string
  timestamp :: string
  from_agent :: string
  to_agent :: string
  subject :: json
  preview :: json
  source_file :: string
  priority :: string
  read :: bool

definition to_dict :: "alert \<Rightarrow> json" where
  "to_dict a = JObj
     [(''id'', JStr (id_alert a)),
      (''timestamp'', JStr (timestamp a)),
      (''from_agent'', JStr (from_agent a)),
      (''to_agent'', JStr (to_agent a)),
      (''subject'', subject a),
      (''preview'', preview a),
      (''source_file'', JStr (source_file a)),
      (''priority'', JStr (priority a)),
      (''read'', JBool (read a))]"

definition alert_fields :: "string list" where
  "alert_fields = [''id'', ''timestamp'', ''from_agent'', ''to_agent'', ''subject'',
     ''preview'', ''source_file'', ''priority'', ''read'']"

definition required_fields :: "string list" where
  "required_fields = [''id'', ''timestamp'', ''from_agent'', ''to_agent'', ''subject'',
     ''preview'', ''source_file'', ''priority'']"

fun is_str :: "json \<Rightarrow> bool" where
  "is_str (JStr s) = True"
| "is_str _ = False"

fun is_bool :: "json \<Rightarrow> bool" where
  "is_bool (JBool b) = True"
| "is_bool _ = False"

fun str_val :: "json \<Rightarrow> string" where
  "str_val (JStr s) = s"
| "str_val _ = []"

fun bool_val :: "json \<Rightarrow> bool" where
  "bool_val (JBool b) = b"
| "bool_val _ = False"

text \<open>
  \<open>Alert.from_dict(data)\<close> is \<open>cls(**data)\<close>. It raises \<open>TypeError\<close> when \<open>data\<close> is not
  a mapping, when a key is not a field of the dataclass and when a field without default
  (all but \<open>read\<close>) is missing. The dataclass does not check the values: Python builds the
  object whatever they are. The model builds it when the values have the declared types and
  stops with \<open>Untyped\<close> otherwise.
\<close>

definition typed_alert :: "(string \<times> json) list \<Rightarrow> py_error + alert" where
  "typed_alert kvs =
     (if list_all (\<lambda>k. is_str (dict_get kvs k JNull))
           [''id'', ''timestamp'', ''from_agent'', ''to_agent'', ''source_file'', ''priority'']
         \<and> is_bool (dict_get kvs ''read'' (JBool False))
      then Inr \<lparr>id_alert = str_val (dict_get kvs ''id'' JNull),
                timestamp = str_val (dict_get kvs ''timestamp'' JNull),
                from_agent = str_val (dict_get kvs ''from_agent'' JNull),
                to_agent = str_val (dict_get kvs ''to_agent'' JNull),
                subject = dict_get kvs ''subject'' JNull,
                preview = dict_get kvs ''preview'' JNull,
                source_file = str_val (dict_get kvs ''source_file'' JNull),
                priority = str_val (dict_get kvs ''priority'' JNull),
                read = bool_val (dict_get kvs ''read'' (JBool False))\<rparr>
      else Inl Untyped)"

fun from_dict :: "json \<Rightarrow> py_error + alert" where
  "from_dict (JObj kvs) =
     (if \<not> list_all (\<lambda>k. k \<in> set alert_fields) (map fst kvs) then Inl TypeError
      else if \<not> list_all (\<lambda>k. k \<in> set (map fst kvs)) required_fields then Inl TypeError
      else typed_alert kvs)"
| "from_dict _ = Inl TypeError"

subsection \<open>The notifier, the runtime and the world\<close>

text \<open>
  \<open>self\<close>: the two attributes set by \<open>__init__\<close>. The alerts directory exists once
  \<open>__init__\<close> has run.
\<close>

record notifier =
  alerts_dir :: string
  enable_bell :: bool

text \<open>
  What the program takes from the Python library without defining it: \<open>str(x)\<close> of a
  parsed value, the first twelve hexadecimal digits of the MD5 digest of a text, and the
  text \<open>datetime.now().isoformat()\<close> returns at the n-th reading of the clock.
\<close>

record runtime =
  str_of :: "json \<Rightarrow> string"
  md5_hex12 :: "string \<Rightarrow> string"
  isoformat_at :: "nat \<Rightarrow> string"

text \<open>
  What is in a file, by what \<open>open(path, 'r', encoding='utf-8')\<close> followed by
  \<open>json.load\<close> does with it. \<open>Unparseable\<close>: the text is not JSON, and \<open>json.load\<close>
  raises \<open>JSONDecodeError\<close> (an empty file is of this kind). \<open>Unreadable\<close>: reading
  raises another exception, which is not a \<open>JSONDecodeError\<close>: \<open>UnicodeDecodeError\<close> for
  bytes that are not UTF-8, \<open>RecursionError\<close> for brackets nested beyond the recursion
  limit, \<open>ValueError\<close> for an integer literal with more digits than the interpreter
  converts. \<open>Parsed\<close>: \<open>json.load\<close> returns the value.
\<close>

datatype read_failure = Not_utf8 | Nested_too_deep | Integer_too_long

fun read_error :: "read_failure \<Rightarrow> py_error" where
  "read_error Not_utf8 = UnicodeDecodeError"
| "read_error Nested_too_deep = RecursionError"
| "read_error Integer_too_long = ValueError"

datatype file_content = Unparseable | Unreadable read_failure | Parsed json

text \<open>
  The lines the methods print, without the text of the exception that some of them quote;
  \<open>Bell\<close> is the character \<open>\\a\<close>.
\<close>

datatype printed =
    Warning_reading string
  | Error_reading
  | Info_exists string
  | Ok_created string string json
  | Ok_marked nat string
  | Bell

record world =
  files :: "string \<Rightarrow> file_content option"
  console :: "printed list"
  clock :: nat

definition say :: "printed \<Rightarrow> world \<Rightarrow> world" where
  "say line w = w\<lparr>console := console w @ [line]\<rparr>"

definition now :: "runtime \<Rightarrow> world \<Rightarrow> string \<times> world" where
  "now rt w = (isoformat_at rt (clock w), w\<lparr>clock := Suc (clock w)\<rparr>)"

subsection \<open>Reading and writing a mailbox\<close>

definition get_alert_file :: "notifier \<Rightarrow> string \<Rightarrow> string" where
  "get_alert_file self agent =
     alerts_dir self @ ''/'' @ py_replace '' '' ''_'' (py_upper agent) @ ''_alerts.json''"

text \<open>
  What a \<open>for\<close> over a parsed value runs through: the elements of a list, the characters
  of a text, the keys of an object; the other values are not iterable.
\<close>

fun py_iter :: "json \<Rightarrow> py_error + json list" where
  "py_iter (JArr xs) = Inr xs"
| "py_iter (JStr s) = Inr (map (\<lambda>c. JStr [c]) s)"
| "py_iter (JObj kvs) = Inr (map (\<lambda>kv. JStr (fst kv)) kvs)"
| "py_iter _ = Inl TypeError"

text \<open>
  \<open>_load_alerts\<close>. The handler catches \<open>JSONDecodeError\<close> and \<open>KeyError\<close> only:
  the other exceptions of reading, \<open>data.get\<close> on a value that is not an object
  (\<open>AttributeError\<close>) and the \<open>TypeError\<close> of the comprehension and of \<open>from_dict\<close>
  leave the method.
\<close>

definition load_alerts ::
  "notifier \<Rightarrow> world \<Rightarrow> string \<Rightarrow> (py_error + alert list) \<times> world" where
  "load_alerts self w agent =
     (case files w (get_alert_file self agent) of
        None \<Rightarrow> (Inr [], w)
      | Some Unparseable \<Rightarrow> (Inr [], say (Warning_reading agent) w)
      | Some (Unreadable f) \<Rightarrow> (Inl (read_error f), w)
      | Some (Parsed data) \<Rightarrow>
          (case data of
             JObj kvs \<Rightarrow>
               (case py_iter (dict_get kvs ''alerts'' (JArr [])) of
                  Inl e \<Rightarrow> (Inl e, w)
                | Inr items \<Rightarrow> (map_res from_dict items, w))
           | _ \<Rightarrow> (Inl AttributeError, w)))"

text \<open>The dictionary \<open>data\<close> that \<open>_save_alerts\<close> dumps.\<close>

definition envelope :: "string \<Rightarrow> string \<Rightarrow> alert list \<Rightarrow> json" where
  "envelope agent stamp alerts = JObj
     [(''agent'', JStr (py_upper agent)),
      (''last_updated'', JStr stamp),
      (''alert_count'', JNum (int (length alerts))),
      (''unread_count'', JNum (int (length (filter (\<lambda>a. \<not> read a) alerts)))),
      (''alerts'', JArr (map to_dict alerts))]"

definition save_alerts ::
  "runtime \<Rightarrow> notifier \<Rightarrow> world \<Rightarrow> string \<Rightarrow> alert list \<Rightarrow> world" where
  "save_alerts rt self w agent alerts =
     (let (stamp, w1) = now rt w;
          data = envelope agent stamp alerts
      in w1\<lparr>files := (files w1)(get_alert_file self agent \<mapsto> Parsed data)\<rparr>)"

definition trigger_bell :: "notifier \<Rightarrow> world \<Rightarrow> world" where
  "trigger_bell self w = (if enable_bell self then say Bell w else w)"

definition generate_alert_id :: "runtime \<Rightarrow> world \<Rightarrow> string \<times> world" where
  "generate_alert_id rt w = (let (stamp, w1) = now rt w in (md5_hex12 rt stamp, w1))"

subsection \<open>Creating an alert\<close>

text \<open>
  The last two lines of \<open>_extract_preview\<close>: \<open>len(preview)\<close>, then the slice and the
  concatenation with a text. \<open>len\<close> of \<open>None\<close>, of a boolean and of a number raises
  \<open>TypeError\<close>; so does a list plus a text, and the slice of a dictionary.
\<close>

fun shorten :: "json \<Rightarrow> py_error + json" where
  "shorten (JStr s) = Inr (JStr (if 100 \<le> length s then take 97 s @ ''...'' else s))"
| "shorten (JArr xs) = (if 100 \<le> length xs then Inl TypeError else Inr (JArr xs))"
| "shorten (JObj kvs) = (if 100 \<le> length kvs then Inl TypeError else Inr (JObj kvs))"
| "shorten _ = Inl TypeError"

fun extract_preview :: "runtime \<Rightarrow> json \<Rightarrow> py_error + json" where
  "extract_preview rt (JStr s) = shorten (JStr (take 100 s))"
| "extract_preview rt (JObj kvs) =
     shorten (dict_get kvs ''announcement''
               (dict_get kvs ''message''
                 (dict_get kvs ''summary'' (JStr (take 100 (str_of rt (JObj kvs)))))))"
| "extract_preview rt content = shorten (JStr (take 100 (str_of rt content)))"

definition normalize_agent :: "string \<Rightarrow> string" where
  "normalize_agent agent = py_replace ''CLI_'' [] (py_replace ''CURSOR_'' [] (py_upper agent))"

definition validate_priority :: "string \<Rightarrow> string" where
  "validate_priority p =
     (case Priority_of (py_upper p) of
        Some v \<Rightarrow> Priority_value v
      | None \<Rightarrow> Priority_value NORMAL)"

text \<open>
  \<open>create_alert\<close>, in the order of the source: the names, the priority, the object (two
  readings of the clock for \<open>id\<close> and \<open>timestamp\<close>, then the preview), the mailbox, the
  duplicate check, and only then the append, the save, the bell and the line \<open>[OK]\<close>.
  The source file is a text, so \<open>str(source_file)\<close>, which the alert stores, is the
  \<open>source_file\<close> that the duplicate check looks for.
\<close>

definition create_alert ::
  "runtime \<Rightarrow> notifier \<Rightarrow> world \<Rightarrow> string \<Rightarrow> string \<Rightarrow> json \<Rightarrow> json \<Rightarrow> string \<Rightarrow> string
     \<Rightarrow> (py_error + alert) \<times> world" where
  "create_alert rt self w to_a from_a subj content src prio =
     (let to_n = normalize_agent to_a;
          from_n = normalize_agent from_a;
          prio_n = validate_priority prio;
          (ident, w1) = generate_alert_id rt w;
          (stamp, w2) = now rt w1
      in case extract_preview rt content of
           Inl e \<Rightarrow> (Inl e, w2)
         | Inr pv \<Rightarrow>
             (let a = \<lparr>id_alert = ident, timestamp = stamp, from_agent = from_n,
                        to_agent = to_n, subject = subj, preview = pv,
                        source_file = src, priority = prio_n, read = False\<rparr>
              in case load_alerts self w2 to_n of
                   (Inl e, w3) \<Rightarrow> (Inl e, w3)
                 | (Inr alerts, w3) \<Rightarrow>
                     if src \<in> set (map source_file alerts)
                     then (Inr a, say (Info_exists src) w3)
                     else (let w4 = save_alerts rt self w3 to_n (alerts @ [a]);
                               w5 = trigger_bell self w4
                           in (Inr a, say (Ok_created to_n from_n subj) w5))))"

subsection \<open>Fan-out of a Synapse message\<close>

text \<open>
  The call \<open>self.create_alert(to_agent=..., from_agent=from_agent, ..., priority=priority)\<close>
  of the fan-out, with values of the message as arguments. \<open>create_alert\<close> starts with
  \<open>from_agent.upper()\<close> and \<open>priority.upper()\<close>: a value that is not a text has no such
  method, and \<open>AttributeError\<close> leaves the call before anything else happens.
\<close>

definition call_create_alert ::
  "runtime \<Rightarrow> notifier \<Rightarrow> json \<Rightarrow> json \<Rightarrow> json \<Rightarrow> string \<Rightarrow> json
     \<Rightarrow> world \<Rightarrow> string \<Rightarrow> (py_error + alert) \<times> world" where
  "call_create_alert rt self from_j subj body src prio_j w to_a =
     (case from_j of
        JStr from_a \<Rightarrow>
          (case prio_j of
             JStr prio \<Rightarrow> create_alert rt self w to_a from_a subj body src prio
           | _ \<Rightarrow> (Inl AttributeError, w))
      | _ \<Rightarrow> (Inl AttributeError, w))"

definition broadcast_agents :: "string list" where
  "broadcast_agents = [''FORGE'', ''ATLAS'', ''CLIO'', ''NEXUS'', ''IRIS'', ''PORTER'']"

text \<open>
  The inner loop \<open>for agent in [...]\<close> and the outer loop \<open>for recipient in to_list\<close>;
  \<open>mk\<close> is the call of \<open>create_alert\<close> for one target, \<open>acc\<close> is \<open>created_alerts\<close>.
\<close>

fun create_each ::
  "(world \<Rightarrow> string \<Rightarrow> (py_error + alert) \<times> world) \<Rightarrow> world \<Rightarrow> string list \<Rightarrow> alert list
     \<Rightarrow> (py_error + alert list) \<times> world" where
  "create_each mk w [] acc = (Inr acc, w)"
| "create_each mk w (agent # rest) acc =
     (case mk w agent of
        (Inl e, w1) \<Rightarrow> (Inl e, w1)
      | (Inr a, w1) \<Rightarrow> create_each mk w1 rest (acc @ [a]))"

fun fanout_loop ::
  "(world \<Rightarrow> string \<Rightarrow> (py_error + alert) \<times> world) \<Rightarrow> world \<Rightarrow> json list \<Rightarrow> alert list
     \<Rightarrow> (py_error + alert list) \<times> world" where
  "fanout_loop mk w [] acc = (Inr acc, w)"
| "fanout_loop mk w (recipient # rest) acc =
     (case recipient of
        JStr r \<Rightarrow>
          if py_upper r \<in> set [''ALL'', ''TEAM_BRAIN'']
          then (case create_each mk w broadcast_agents acc of
                  (Inl e, w1) \<Rightarrow> (Inl e, w1)
                | (Inr acc1, w1) \<Rightarrow> fanout_loop mk w1 rest acc1)
          else (case mk w r of
                  (Inl e, w1) \<Rightarrow> (Inl e, w1)
                | (Inr a, w1) \<Rightarrow> fanout_loop mk w1 rest (acc @ [a]))
      | _ \<Rightarrow> (Inl AttributeError, w))"

text \<open>\<open>if isinstance(x, str): x = [x]\<close>.\<close>

fun wrap_str :: "json \<Rightarrow> json" where
  "wrap_str (JStr s) = JArr [JStr s]"
| "wrap_str j = j"

text \<open>
  \<open>to_list.extend(cc_list)\<close>: only a list has \<open>extend\<close> (\<open>AttributeError\<close> otherwise),
  and the argument must be iterable.
\<close>

fun extend_list :: "json \<Rightarrow> json \<Rightarrow> py_error + json list" where
  "extend_list (JArr xs) cc =
     (case py_iter cc of Inl e \<Rightarrow> Inl e | Inr ys \<Rightarrow> Inr (xs @ ys))"
| "extend_list _ cc = Inl AttributeError"

text \<open>
  \<open>create_alerts_from_synapse_message\<close>. The handler around \<open>json.load\<close> catches
  \<open>JSONDecodeError\<close> and \<open>FileNotFoundError\<close>: the other exceptions of reading leave
  the method, and what follows the handler is outside any handler.
\<close>

definition create_alerts_from_synapse_message ::
  "runtime \<Rightarrow> notifier \<Rightarrow> world \<Rightarrow> string \<Rightarrow> (py_error + alert list) \<times> world" where
  "create_alerts_from_synapse_message rt self w message_path =
     (case files w message_path of
        None \<Rightarrow> (Inr [], say Error_reading w)
      | Some Unparseable \<Rightarrow> (Inr [], say Error_reading w)
      | Some (Unreadable f) \<Rightarrow> (Inl (read_error f), w)
      | Some (Parsed msg) \<Rightarrow>
          (case msg of
             JObj kvs \<Rightarrow>
               (let to_list = wrap_str (dict_get kvs ''to'' (JArr []));
                    cc_list = wrap_str (dict_get kvs ''cc'' (JArr []))
                in case extend_list to_list cc_list of
                     Inl e \<Rightarrow> (Inl e, w)
                   | Inr recipients \<Rightarrow>
                       (let from_j = dict_get kvs ''from'' (JStr ''UNKNOWN'');
                            subj = dict_get kvs ''subject'' (JStr ''No Subject'');
                            body = dict_get kvs ''body'' (dict_get kvs ''content'' (JStr []));
                            prio_j = dict_get kvs ''priority'' (JStr ''NORMAL'')
                        in fanout_loop
                             (call_create_alert rt self from_j subj body message_path prio_j)
                             w recipients []))
           | _ \<Rightarrow> (Inl AttributeError, w)))"

subsection \<open>Queries and mark_read\<close>

text \<open>
  \<open>list.sort(key=..., reverse=True)\<close>: the list is reversed, sorted by a stable sort in
  ascending order of the key, and reversed again. Texts compare character by character,
  a proper prefix before the longer text.
\<close>

definition sort_reverse :: "('a \<Rightarrow> string) \<Rightarrow> 'a list \<Rightarrow> 'a list" where
  "sort_reverse key xs = rev (sort_key key (rev xs))"

text \<open>
  \<open>get_alerts\<close>. \<open>if priority:\<close> is false for \<open>None\<close> and for the empty text.
\<close>

definition get_alerts ::
  "notifier \<Rightarrow> world \<Rightarrow> string \<Rightarrow> bool \<Rightarrow> string option
     \<Rightarrow> (py_error + alert list) \<times> world" where
  "get_alerts self w agent unread_only prio =
     (case load_alerts self w agent of
        (Inl e, w1) \<Rightarrow> (Inl e, w1)
      | (Inr alerts, w1) \<Rightarrow>
          (let alerts1 = (if unread_only then filter (\<lambda>a. \<not> read a) alerts else alerts);
               alerts2 = (case prio of
                            None \<Rightarrow> alerts1
                          | Some p \<Rightarrow>
                              if p \<noteq> [] then filter (\<lambda>a. priority a = py_upper p) alerts1
                              else alerts1)
           in (Inr (sort_reverse timestamp alerts2), w1)))"

definition get_alert_count ::
  "notifier \<Rightarrow> world \<Rightarrow> string \<Rightarrow> bool \<Rightarrow> (py_error + nat) \<times> world" where
  "get_alert_count self w agent unread_only =
     (case get_alerts self w agent unread_only None of
        (Inl e, w1) \<Rightarrow> (Inl e, w1)
      | (Inr alerts, w1) \<Rightarrow> (Inr (length alerts), w1))"

text \<open>
  The loop of \<open>mark_read\<close>: the alerts with their \<open>read\<close> flags after the loop, and \<open>count\<close>.
  With an \<open>alert_id\<close> the loop breaks at the first alert it marks.
\<close>

fun mark_loop :: "string option \<Rightarrow> alert list \<Rightarrow> alert list \<times> nat" where
  "mark_loop alert_id [] = ([], 0)"
| "mark_loop alert_id (a # rest) =
     (let should_mark = (alert_id = None \<or> Some (id_alert a) = alert_id)
      in if should_mark \<and> \<not> read a
         then (if alert_id \<noteq> None then (a\<lparr>read := True\<rparr> # rest, 1)
               else (case mark_loop alert_id rest of
                       (rest1, n) \<Rightarrow> (a\<lparr>read := True\<rparr> # rest1, n + 1)))
         else (case mark_loop alert_id rest of (rest1, n) \<Rightarrow> (a # rest1, n)))"

definition mark_read ::
  "runtime \<Rightarrow> notifier \<Rightarrow> world \<Rightarrow> string \<Rightarrow> string option \<Rightarrow> (py_error + nat) \<times> world" where
  "mark_read rt self w agent alert_id =
     (case load_alerts self w agent of
        (Inl e, w1) \<Rightarrow> (Inl e, w1)
      | (Inr alerts, w1) \<Rightarrow>
          (case mark_loop alert_id alerts of
             (alerts1, n) \<Rightarrow>
               (let w2 = save_alerts rt self w1 agent alerts1
                in (Inr n, if 0 < n then say (Ok_marked n agent) w2 else w2))))"

section \<open>Notions used in the statements\<close>

text \<open>The object that \<open>create_alert\<close> builds when the preview is \<open>pv\<close>.\<close>

definition fresh_alert ::
  "runtime \<Rightarrow> world \<Rightarrow> string \<Rightarrow> string \<Rightarrow> json \<Rightarrow> json \<Rightarrow> string \<Rightarrow> string \<Rightarrow> alert" where
  "fresh_alert rt w to_a from_a subj pv src prio =
     \<lparr>id_alert = md5_hex12 rt (isoformat_at rt (clock w)),
      timestamp = isoformat_at rt (Suc (clock w)),
      from_agent = normalize_agent from_a,
      to_agent = normalize_agent to_a,
      subject = subj, preview = pv, source_file = src,
      priority = validate_priority prio, read = False\<rparr>"

text \<open>
  The normalisation as the specification words it: the text in upper case, then a leading
  \<open>CURSOR_\<close> taken away, then a leading \<open>CLI_\<close>, each at most once.
\<close>

definition strip_prefix_once :: "string \<Rightarrow> string \<Rightarrow> string" where
  "strip_prefix_once pre s = (if take (length pre) s = pre then drop (length pre) s else s)"

definition normalize_as_specified :: "string \<Rightarrow> string" where
  "normalize_as_specified agent =
     strip_prefix_once ''CLI_'' (strip_prefix_once ''CURSOR_'' (py_upper agent))"

text \<open>
  The text a preview is derived from, as the specification words it: the content itself
  when it is a text; for a mapping the first field present among \<open>announcement\<close>,
  \<open>message\<close> and \<open>summary\<close>, or the mapping as text when none is present; any other
  content as text. \<open>None\<close> when the first field present does not hold a text.
\<close>

fun first_present :: "(string \<times> json) list \<Rightarrow> string list \<Rightarrow> json option" where
  "first_present kvs [] = None"
| "first_present kvs (k # ks) =
     (case map_of kvs k of Some v \<Rightarrow> Some v | None \<Rightarrow> first_present kvs ks)"

definition source_text :: "runtime \<Rightarrow> json \<Rightarrow> string option" where
  "source_text rt content =
     (case content of
        JStr s \<Rightarrow> Some s
      | JObj kvs \<Rightarrow>
          (case first_present kvs [''announcement'', ''message'', ''summary''] of
             None \<Rightarrow> Some (str_of rt content)
           | Some (JStr s) \<Rightarrow> Some s
           | Some _ \<Rightarrow> None)
      | _ \<Rightarrow> Some (str_of rt content))"

text \<open>
  The recipients of a field \<open>to\<close> or \<open>cc\<close> in the forms the message format allows: the
  field is absent, a text, or a list of texts. The targets of a recipient: the six agents
  for a broadcast alias, the recipient itself otherwise.
\<close>

definition recipients_of :: "json option \<Rightarrow> string list option" where
  "recipients_of field =
     (case field of
        None \<Rightarrow> Some []
      | Some (JStr s) \<Rightarrow> Some [s]
      | Some (JArr xs) \<Rightarrow> (if list_all is_str xs then Some (map str_val xs) else None)
      | Some _ \<Rightarrow> None)"

definition targets_of :: "string \<Rightarrow> string list" where
  "targets_of r =
     (if py_upper r = ''ALL'' \<or> py_upper r = ''TEAM_BRAIN''
      then [''FORGE'', ''ATLAS'', ''CLIO'', ''NEXUS'', ''IRIS'', ''PORTER''] else [r])"

text \<open>The mailbox of an agent can be read: \<open>_load_alerts\<close> returns.\<close>

definition loadable :: "notifier \<Rightarrow> world \<Rightarrow> string \<Rightarrow> bool" where
  "loadable self w agent = (case fst (load_alerts self w agent) of Inl e \<Rightarrow> False | Inr xs \<Rightarrow> True)"

text \<open>What passes the filters of \<open>get_alerts\<close>, in the words of the specification.\<close>

definition passes :: "bool \<Rightarrow> string option \<Rightarrow> alert \<Rightarrow> bool" where
  "passes unread_only prio a =
     ((if unread_only then \<not> read a else True) \<and>
      (case prio of None \<Rightarrow> True | Some p \<Rightarrow> priority a = py_upper p))"

text \<open>A runtime, a notifier and worlds for concrete runs.\<close>

definition demo_runtime :: runtime where
  "demo_runtime =
     \<lparr>str_of = (\<lambda>j. ''{...}''),
      md5_hex12 = (\<lambda>s. take 12 (''md5'' @ drop 17 s)),
      isoformat_at = (\<lambda>n. ''2026-01-22T12:00:'' @ replicate n (CHR ''0''))\<rparr>"

definition demo_notifier :: notifier where
  "demo_notifier = \<lparr>alerts_dir = ''alerts'', enable_bell = False\<rparr>"

definition empty_world :: world where
  "empty_world = \<lparr>files = (\<lambda>p. None), console = [], clock = 0\<rparr>"

definition world_with :: "string \<Rightarrow> file_content \<Rightarrow> world" where
  "world_with path content =
     \<lparr>files = (\<lambda>p. if p = path then Some content else None), console = [], clock = 0\<rparr>"

definition demo_alert :: alert where
  "demo_alert =
     \<lparr>id_alert = ''md5'', timestamp = ''2026-01-22T12:00:0'', from_agent = ''FORGE'',
      to_agent = ''ATLAS'', subject = JStr ''Test'', preview = JStr ''Test'',
      source_file = ''/test.json'', priority = ''NORMAL'', read = False\<rparr>"

definition demo_mailbox :: world where
  "demo_mailbox =
     world_with ''alerts/ATLAS_alerts.json''
       (Parsed (envelope ''ATLAS'' ''2026-01-22T12:00:00'' [demo_alert]))"

definition demo_mailbox3 :: world where
  "demo_mailbox3 =
     world_with ''alerts/ATLAS_alerts.json''
       (Parsed (envelope ''ATLAS'' ''2026-01-22T12:00:00''
          [demo_alert\<lparr>read := True\<rparr>,
           demo_alert\<lparr>source_file := ''/b.json''\<rparr>,
           demo_alert\<lparr>source_file := ''/c.json''\<rparr>]))"

text \<open>A broadcast message, and the world after one and after two creations.\<close>

definition demo_message :: "(string \<times> json) list" where
  "demo_message =
     [(''from'', JStr ''FORGE''),
      (''to'', JArr [JStr ''TEAM_BRAIN'']),
      (''priority'', JStr ''NORMAL''),
      (''subject'', JStr ''Broadcast Message''),
      (''body'', JObj [(''announcement'', JStr ''Hello'')])]"

definition demo_broadcast :: world where
  "demo_broadcast = world_with ''/broadcast.json'' (Parsed (JObj demo_message))"

definition demo_first :: world where
  "demo_first =
     snd (create_alert demo_runtime demo_notifier empty_world ''ATLAS'' ''FORGE''
            (JStr ''Unread'') (JStr ''Test'') ''/unread.json'' ''NORMAL'')"

definition demo_second :: world where
  "demo_second =
     snd (create_alert demo_runtime demo_notifier demo_first ''ATLAS'' ''CLIO''
            (JStr ''Will be read'') (JStr ''Test'') ''/read.json'' ''NORMAL'')"

text \<open>The world after the two readings of the clock that \<open>create_alert\<close> starts with.\<close>

definition ticked :: "world \<Rightarrow> world" where
  "ticked w = w\<lparr>clock := Suc (Suc (clock w))\<rparr>"

section \<open>Reading back what was written\<close>


lemma from_dict_to_dict: "from_dict (to_dict a) = Inr a"
  by (simp add: to_dict_def alert_fields_def required_fields_def typed_alert_def dict_get_def)

lemma map_res_from_dict: "map_res from_dict (map to_dict xs) = Inr xs"
  by (induction xs) (simp_all add: from_dict_to_dict)

lemma files_load_alerts: "files (snd (load_alerts self w agent)) = files w"
  by (simp add: load_alerts_def say_def split: option.splits file_content.splits json.splits sum.splits)

lemma load_alerts_files_cong:
  "files w = files w' \<Longrightarrow> fst (load_alerts self w agent) = fst (load_alerts self w' agent)"
  by (simp add: load_alerts_def split: option.splits file_content.splits json.splits sum.splits)

lemma files_save_alerts:
  "files (save_alerts rt self w agent xs) =
     (files w)(get_alert_file self agent \<mapsto> Parsed (envelope agent (isoformat_at rt (clock w)) xs))"
  by (simp add: save_alerts_def now_def)

lemma load_after_save:
  "get_alert_file self agent' = get_alert_file self agent \<Longrightarrow>
   fst (load_alerts self (save_alerts rt self w agent xs) agent') = Inr xs"
  by (simp add: load_alerts_def files_save_alerts envelope_def dict_get_def map_res_from_dict)

subsection \<open>create_alert, step by step\<close>

lemma create_alert_preview_error:
  "extract_preview rt content = Inl e \<Longrightarrow>
   create_alert rt self w to_a from_a subj content src prio = (Inl e, ticked w)"
  by (simp add: create_alert_def generate_alert_id_def now_def ticked_def)

lemma create_alert_load_error:
  assumes "extract_preview rt content = Inr pv"
    and "fst (load_alerts self w (normalize_agent to_a)) = Inl e"
  shows "fst (create_alert rt self w to_a from_a subj content src prio) = Inl e"
    and "files (snd (create_alert rt self w to_a from_a subj content src prio)) = files w"
proof -
  have f: "files (ticked w) = files w" by (simp add: ticked_def)
  obtain r w3 where l: "load_alerts self (ticked w) (normalize_agent to_a) = (r, w3)"
    by (cases "load_alerts self (ticked w) (normalize_agent to_a)")
  have "r = Inl e" using load_alerts_files_cong [OF f, of self "normalize_agent to_a"] l assms(2) by simp
  moreover have "files w3 = files w" using files_load_alerts [of self "ticked w" "normalize_agent to_a"] l f by simp
  ultimately show "fst (create_alert rt self w to_a from_a subj content src prio) = Inl e"
    and "files (snd (create_alert rt self w to_a from_a subj content src prio)) = files w"
    using assms(1) l
    by (simp_all add: create_alert_def generate_alert_id_def now_def ticked_def)
qed

lemma create_alert_returns:
  assumes "extract_preview rt content = Inr pv"
    and "fst (load_alerts self w (normalize_agent to_a)) = Inr alerts"
  shows "fst (create_alert rt self w to_a from_a subj content src prio)
           = Inr (fresh_alert rt w to_a from_a subj pv src prio)"
    and "files (snd (create_alert rt self w to_a from_a subj content src prio)) =
           (if src \<in> set (map source_file alerts) then files w
            else (files w)(get_alert_file self (normalize_agent to_a) \<mapsto>
                   Parsed (envelope (normalize_agent to_a) (isoformat_at rt (Suc (Suc (clock w))))
                            (alerts @ [fresh_alert rt w to_a from_a subj pv src prio]))))"
proof -
  have f: "files (ticked w) = files w" by (simp add: ticked_def)
  obtain r w3 where l: "load_alerts self (ticked w) (normalize_agent to_a) = (r, w3)"
    by (cases "load_alerts self (ticked w) (normalize_agent to_a)")
  have r: "r = Inr alerts" using load_alerts_files_cong [OF f, of self "normalize_agent to_a"] l assms(2) by simp
  have w3: "files w3 = files w" "clock w3 = Suc (Suc (clock w))"
    using files_load_alerts [of self "ticked w" "normalize_agent to_a"] l f
     apply simp
    using l by (auto simp add: load_alerts_def say_def ticked_def split: option.splits file_content.splits json.splits sum.splits)
  show "fst (create_alert rt self w to_a from_a subj content src prio)
           = Inr (fresh_alert rt w to_a from_a subj pv src prio)"
    using assms(1) l r
    by (simp add: create_alert_def generate_alert_id_def now_def ticked_def fresh_alert_def Let_def)
  show "files (snd (create_alert rt self w to_a from_a subj content src prio)) =
           (if src \<in> set (map source_file alerts) then files w
            else (files w)(get_alert_file self (normalize_agent to_a) \<mapsto>
                   Parsed (envelope (normalize_agent to_a) (isoformat_at rt (Suc (Suc (clock w))))
                            (alerts @ [fresh_alert rt w to_a from_a subj pv src prio]))))"
    using assms(1) l r w3
    by (simp add: create_alert_def generate_alert_id_def now_def ticked_def fresh_alert_def Let_def
        say_def trigger_bell_def files_save_alerts)
qed

lemma create_alert_Inr_fresh:
  assumes "fst (create_alert rt self w to_a from_a subj content src prio) = Inr a"
  shows "\<exists>pv. extract_preview rt content = Inr pv \<and> a = fresh_alert rt w to_a from_a subj pv src prio"
proof (cases "extract_preview rt content")
  case (Inl e)
  then show ?thesis using assms create_alert_preview_error [of rt content e] by simp
next
  case (Inr pv)
  show ?thesis
  proof (cases "fst (load_alerts self w (normalize_agent to_a))")
    case (Inl e)
    then show ?thesis using assms create_alert_load_error(1) [OF Inr Inl] by simp
  next
    case (Inr alerts)
    then show ?thesis using assms create_alert_returns(1) [OF \<open>extract_preview rt content = Inr pv\<close> Inr]
      \<open>extract_preview rt content = Inr pv\<close> by simp
  qed
qed

section \<open>Alert creation\<close>

text \<open>
  C2, as amended. The alert that \<open>create_alert\<close> returns has in \<open>to_agent\<close> and
  \<open>from_agent\<close> the argument in upper case with every occurrence of \<open>CURSOR_\<close> removed
  and then every occurrence of \<open>CLI_\<close> removed, wherever in the text it stands:
  \<open>str.replace\<close> is not limited to a prefix nor to the first match.
\<close>

theorem create_alert_normalizes:
  assumes "fst (create_alert rt self w to_a from_a subj content src prio) = Inr a"
  shows "to_agent a = py_replace ''CLI_'' [] (py_replace ''CURSOR_'' [] (py_upper to_a))
       \<and> from_agent a = py_replace ''CLI_'' [] (py_replace ''CURSOR_'' [] (py_upper from_a))"
proof -
  obtain pv where "a = fresh_alert rt w to_a from_a subj pv src prio"
    using assms create_alert_Inr_fresh by blast
  then show ?thesis by (simp add: fresh_alert_def normalize_agent_def)
qed

text \<open>The example of the specification: \<open>CURSOR_FORGE\<close> and \<open>CLI_CLIO\<close>.\<close>

theorem create_alert_normalizes_witness:
  "fst (create_alert demo_runtime demo_notifier empty_world ''CURSOR_FORGE'' ''CLI_CLIO''
          (JStr ''Test'') (JStr ''Test'') ''/test.json'' ''NORMAL'') = Inr
     \<lparr>id_alert = ''md5'', timestamp = ''2026-01-22T12:00:0'', from_agent = ''CLIO'',
      to_agent = ''FORGE'', subject = JStr ''Test'', preview = JStr ''Test'',
      source_file = ''/test.json'', priority = ''NORMAL'', read = False\<rparr>
   \<and> py_replace ''CLI_'' [] (py_replace ''CURSOR_'' [] (py_upper ''CURSOR_FORGE'')) = ''FORGE''
   \<and> py_replace ''CLI_'' [] (py_replace ''CURSOR_'' [] (py_upper ''CLI_CLIO'')) = ''CLIO''"
proof -
  have run: "fst (create_alert demo_runtime demo_notifier empty_world ''CURSOR_FORGE'' ''CLI_CLIO''
          (JStr ''Test'') (JStr ''Test'') ''/test.json'' ''NORMAL'') = Inr
     \<lparr>id_alert = ''md5'', timestamp = ''2026-01-22T12:00:0'', from_agent = ''CLIO'',
      to_agent = ''FORGE'', subject = JStr ''Test'', preview = JStr ''Test'',
      source_file = ''/test.json'', priority = ''NORMAL'', read = False\<rparr>"
    by code_simp
  from create_alert_normalizes [OF run] show ?thesis using run by simp
qed

text \<open>
  C2 as the specification states it fails: \<open>CLI_\<close> inside the name \<open>A_CLI_B\<close> is not a
  prefix, and the alert is addressed to \<open>A_B\<close>.
\<close>

theorem create_alert_inner_occurrence_removed:
  "fst (create_alert demo_runtime demo_notifier empty_world ''A_CLI_B'' ''FORGE''
          (JStr ''Test'') (JStr ''Test'') ''/test.json'' ''NORMAL'') = Inr
     \<lparr>id_alert = ''md5'', timestamp = ''2026-01-22T12:00:0'', from_agent = ''FORGE'',
      to_agent = ''A_B'', subject = JStr ''Test'', preview = JStr ''Test'',
      source_file = ''/test.json'', priority = ''NORMAL'', read = False\<rparr>
   \<and> normalize_as_specified ''A_CLI_B'' = ''A_CLI_B''"
  by code_simp

text \<open>
  C7. When \<open>create_alert\<close> returns an alert, its priority is the argument in upper case if
  that is one of \<open>LOW\<close>, \<open>NORMAL\<close>, \<open>HIGH\<close>, \<open>CRITICAL\<close>, and \<open>NORMAL\<close> otherwise. The
  priority never makes the creation fail: whenever \<open>create_alert\<close> raises, it raises the
  same exception with any other priority text in its place.
\<close>

theorem create_alert_priority:
  "(fst (create_alert rt self w to_a from_a subj content src prio) = Inr a \<longrightarrow>
      priority a =
        (if py_upper prio \<in> {''LOW'', ''NORMAL'', ''HIGH'', ''CRITICAL''}
         then py_upper prio else ''NORMAL''))
   \<and> (fst (create_alert rt self w to_a from_a subj content src prio) = Inl e \<longrightarrow>
      fst (create_alert rt self w to_a from_a subj content src prio') = Inl e)"
proof (intro conjI impI)
  assume "fst (create_alert rt self w to_a from_a subj content src prio) = Inr a"
  then obtain pv where "a = fresh_alert rt w to_a from_a subj pv src prio"
    using create_alert_Inr_fresh by blast
  then show "priority a =
        (if py_upper prio \<in> {''LOW'', ''NORMAL'', ''HIGH'', ''CRITICAL''}
         then py_upper prio else ''NORMAL'')"
    by (simp add: fresh_alert_def validate_priority_def Priority_of_def)
next
  assume raised: "fst (create_alert rt self w to_a from_a subj content src prio) = Inl e"
  show "fst (create_alert rt self w to_a from_a subj content src prio') = Inl e"
  proof (cases "extract_preview rt content")
    case (Inl e')
    then show ?thesis using raised by (simp add: create_alert_preview_error)
  next
    case (Inr pv)
    show ?thesis
    proof (cases "fst (load_alerts self w (normalize_agent to_a))")
      case (Inl e')
      then show ?thesis using raised create_alert_load_error(1) [OF Inr Inl] by simp
    next
      case (Inr alerts)
      then show ?thesis
        using raised create_alert_returns(1) [OF \<open>extract_preview rt content = Inr pv\<close> Inr]
        by simp
    qed
  qed
qed

text \<open>
  The priority \<open>BOGUS\<close> gives \<open>NORMAL\<close>, \<open>high\<close> gives \<open>HIGH\<close>; and a creation that fails
  on its content fails in the same way with the priority \<open>NORMAL\<close>.
\<close>

theorem create_alert_priority_witness:
  "priority
     \<lparr>id_alert = ''md5'', timestamp = ''2026-01-22T12:00:0'', from_agent = ''FORGE'',
      to_agent = ''ATLAS'', subject = JStr ''Test'', preview = JStr ''Test'',
      source_file = ''/test.json'', priority = ''NORMAL'', read = False\<rparr> = ''NORMAL''
   \<and> fst (create_alert demo_runtime demo_notifier empty_world ''ATLAS'' ''FORGE''
          (JStr ''Test'') (JStr ''Test'') ''/test.json'' ''BOGUS'') = Inr
     \<lparr>id_alert = ''md5'', timestamp = ''2026-01-22T12:00:0'', from_agent = ''FORGE'',
      to_agent = ''ATLAS'', subject = JStr ''Test'', preview = JStr ''Test'',
      source_file = ''/test.json'', priority = ''NORMAL'', read = False\<rparr>
   \<and> fst (create_alert demo_runtime demo_notifier empty_world ''ATLAS'' ''FORGE''
          (JStr ''Test'') (JStr ''Test'') ''/test.json'' ''high'') = Inr
     \<lparr>id_alert = ''md5'', timestamp = ''2026-01-22T12:00:0'', from_agent = ''FORGE'',
      to_agent = ''ATLAS'', subject = JStr ''Test'', preview = JStr ''Test'',
      source_file = ''/test.json'', priority = ''HIGH'', read = False\<rparr>
   \<and> fst (create_alert demo_runtime demo_notifier empty_world ''ATLAS'' ''FORGE''
          (JStr ''Test'') (JObj [(''announcement'', JNum 5)]) ''/test.json'' ''BOGUS'') = Inl TypeError
   \<and> fst (create_alert demo_runtime demo_notifier empty_world ''ATLAS'' ''FORGE''
          (JStr ''Test'') (JObj [(''announcement'', JNum 5)]) ''/test.json'' ''NORMAL'') = Inl TypeError"
proof -
  have bogus: "fst (create_alert demo_runtime demo_notifier empty_world ''ATLAS'' ''FORGE''
          (JStr ''Test'') (JStr ''Test'') ''/test.json'' ''BOGUS'') = Inr
     \<lparr>id_alert = ''md5'', timestamp = ''2026-01-22T12:00:0'', from_agent = ''FORGE'',
      to_agent = ''ATLAS'', subject = JStr ''Test'', preview = JStr ''Test'',
      source_file = ''/test.json'', priority = ''NORMAL'', read = False\<rparr>"
    by code_simp
  have high: "fst (create_alert demo_runtime demo_notifier empty_world ''ATLAS'' ''FORGE''
          (JStr ''Test'') (JStr ''Test'') ''/test.json'' ''high'') = Inr
     \<lparr>id_alert = ''md5'', timestamp = ''2026-01-22T12:00:0'', from_agent = ''FORGE'',
      to_agent = ''ATLAS'', subject = JStr ''Test'', preview = JStr ''Test'',
      source_file = ''/test.json'', priority = ''HIGH'', read = False\<rparr>"
    by code_simp
  have raised: "fst (create_alert demo_runtime demo_notifier empty_world ''ATLAS'' ''FORGE''
          (JStr ''Test'') (JObj [(''announcement'', JNum 5)]) ''/test.json'' ''BOGUS'') = Inl TypeError"
    by code_simp
  from create_alert_priority [THEN conjunct2, rule_format, OF raised, of "''NORMAL''"]
       create_alert_priority [THEN conjunct1, rule_format, OF bogus]
  show ?thesis using bogus high raised by simp
qed

text \<open>
  C6, as amended. Whenever the text the preview is derived from exists (the content is a
  text; or a mapping whose first field present among \<open>announcement\<close>, \<open>message\<close>,
  \<open>summary\<close> holds a text; or a mapping with none of the three, or any other value, taken as
  text), \<open>_extract_preview\<close> returns that text when it is shorter than 100 characters, and
  its first 97 characters followed by three dots otherwise; the result has at most 100
  characters.
\<close>

theorem extract_preview_bounded:
  assumes "source_text rt content = Some t"
  shows "extract_preview rt content =
           Inr (JStr (if 100 \<le> length t then take 97 t @ ''...'' else t))
         \<and> length (if 100 \<le> length t then take 97 t @ ''...'' else t) \<le> 100"
proof -
  have len: "length (if 100 \<le> length t then take 97 t @ ''...'' else t) \<le> 100" by simp
  have "extract_preview rt content =
          Inr (JStr (if 100 \<le> length t then take 97 t @ ''...'' else t))"
  proof (cases content)
    case (JObj kvs)
    then show ?thesis using assms
      by (auto simp add: source_text_def dict_get_def min_def split: option.splits json.splits)
  qed (use assms in \<open>auto simp add: source_text_def min_def\<close>)
  then show ?thesis using len by simp
qed

text \<open>The content \<open>{"announcement": "X"}\<close> has the preview \<open>X\<close>.\<close>

theorem extract_preview_bounded_witness:
  "source_text demo_runtime (JObj [(''announcement'', JStr ''X'')]) = Some ''X''
   \<and> extract_preview demo_runtime (JObj [(''announcement'', JStr ''X'')]) = Inr (JStr ''X'')"
proof -
  have src: "source_text demo_runtime (JObj [(''announcement'', JStr ''X'')]) = Some ''X''"
    by (simp add: source_text_def)
  from extract_preview_bounded [OF src] show ?thesis using src by simp
qed

text \<open>
  C6 as the specification states it fails for a mapping whose field is not a text:
  \<open>len(5)\<close> raises \<open>TypeError\<close>, and there is no preview.
\<close>

theorem extract_preview_number_raises:
  "extract_preview demo_runtime (JObj [(''announcement'', JNum 5)]) = Inl TypeError"
  by (simp add: dict_get_def)

section \<open>Malformed files\<close>

text \<open>
  C3. \<open>_load_alerts\<close> does not return on every malformed mailbox: a record without the
  fields of an alert raises \<open>TypeError\<close>, and a document that is a list raises
  \<open>AttributeError\<close>; the handler names \<open>JSONDecodeError\<close> and \<open>KeyError\<close>.
\<close>

theorem load_alerts_raises_on_malformed_structure:
  "fst (load_alerts demo_notifier
          (world_with ''alerts/ATLAS_alerts.json''
             (Parsed (JObj [(''alerts'', JArr [JObj [(''id'', JStr ''a1'')]])])))
          ''ATLAS'') = Inl TypeError
   \<and> fst (load_alerts demo_notifier
          (world_with ''alerts/ATLAS_alerts.json'' (Parsed (JArr []))) ''ATLAS'')
       = Inl AttributeError"
  by (simp add: load_alerts_def demo_notifier_def world_with_def get_alert_file_def
      py_upper_def upper_char_def dict_get_def alert_fields_def required_fields_def)




section \<open>Queries leave the files alone\<close>

text \<open>
  C10. \<open>get_alerts\<close> and \<open>get_alert_count\<close> leave every file as it is, whatever the agent
  and the filters, also when loading raises; so no mailbox file is created for an agent
  that has none.
\<close>

theorem queries_read_only:
  "files (snd (get_alerts self w agent unread_only prio)) = files w
   \<and> files (snd (get_alert_count self w agent unread_only)) = files w"
proof -
  have g: "files (snd (get_alerts self w agent u p)) = files w" for u p
    using files_load_alerts [of self w agent]
    by (cases "load_alerts self w agent") (auto simp add: get_alerts_def Let_def split: sum.splits)
  have "files (snd (get_alert_count self w agent unread_only)) = files w"
    using g [of unread_only None]
    by (cases "get_alerts self w agent unread_only None")
       (auto simp add: get_alert_count_def split: sum.splits)
  then show ?thesis using g by simp
qed

section \<open>One alert per source file\<close>

lemma clock_load_alerts: "clock (snd (load_alerts self w agent)) = clock w"
  by (simp add: load_alerts_def say_def split: option.splits file_content.splits json.splits sum.splits)

lemma load_alerts_file_cong:
  "files w (get_alert_file self agent) = files w' (get_alert_file self agent) \<Longrightarrow>
   fst (load_alerts self w agent) = fst (load_alerts self w' agent)"
  by (simp add: load_alerts_def split: option.splits file_content.splits json.splits sum.splits)

lemma load_alerts_envelope:
  "files w (get_alert_file self agent) = Some (Parsed (envelope ag stamp xs)) \<Longrightarrow>
   fst (load_alerts self w agent) = Inr xs"
  by (simp add: load_alerts_def envelope_def dict_get_def map_res_from_dict)

lemma load_alerts_same_file:
  "get_alert_file self agent = get_alert_file self agent' \<Longrightarrow>
   fst (load_alerts self w agent) = fst (load_alerts self w agent')"
  by (simp add: load_alerts_def split: option.splits file_content.splits json.splits sum.splits)

lemma count_distinct_key:
  "distinct (map f xs) \<Longrightarrow> y \<in> set (map f xs) \<Longrightarrow> length (filter (\<lambda>x. f x = y) xs) = 1"
proof (induction xs)
  case Nil
  then show ?case by simp
next
  case (Cons x xs)
  show ?case
  proof (cases "f x = y")
    case True
    then have "y \<notin> set (map f xs)" using Cons.prems(1) by auto
    then have "filter (\<lambda>x. f x = y) xs = []" by (auto simp add: filter_empty_conv)
    then show ?thesis using True by simp
  next
    case False
    then show ?thesis using Cons by auto
  qed
qed

lemma create_alert_duplicate_files:
  assumes "fst (load_alerts self w (normalize_agent to_a)) = Inr alerts"
    and "src \<in> set (map source_file alerts)"
  shows "files (snd (create_alert rt self w to_a from_a subj content src prio)) = files w"
proof (cases "extract_preview rt content")
  case (Inl e)
  then show ?thesis by (simp add: create_alert_preview_error ticked_def)
next
  case (Inr pv)
  then show ?thesis using create_alert_returns(2) [OF Inr assms(1)] assms(2) by simp
qed

lemma create_alert_appends:
  assumes "extract_preview rt content = Inr pv"
    and "fst (load_alerts self w (normalize_agent to_a)) = Inr alerts"
    and "src \<notin> set (map source_file alerts)"
  shows "fst (load_alerts self (snd (create_alert rt self w to_a from_a subj content src prio))
               (normalize_agent to_a))
           = Inr (alerts @ [fresh_alert rt w to_a from_a subj pv src prio])"
proof -
  have "files (snd (create_alert rt self w to_a from_a subj content src prio))
          (get_alert_file self (normalize_agent to_a)) =
        Some (Parsed (envelope (normalize_agent to_a) (isoformat_at rt (Suc (Suc (clock w))))
                       (alerts @ [fresh_alert rt w to_a from_a subj pv src prio])))"
    using create_alert_returns(2) [OF assms(1,2), of from_a subj src prio] assms(3) by simp
  then show ?thesis by (rule load_alerts_envelope)
qed

text \<open>
  C1. Let the mailbox of the recipient load, with no source file occurring twice in it, and
  let the content have a preview. If the mailbox already holds an alert with the source file
  of the call, \<open>create_alert\<close> returns the alert it built and leaves every file as it was.
  In every case the mailbox after the call loads, still has no source file twice, and holds
  exactly one alert with the source file of the call; and a second call for the same
  recipient and source file, whatever its other arguments, leaves every file as the first
  call left it.
\<close>

theorem create_alert_one_per_source_file:
  assumes load: "fst (load_alerts self w (normalize_agent to_a)) = Inr alerts"
    and inv: "distinct (map source_file alerts)"
    and pv: "extract_preview rt content = Inr pv"
  shows "(src \<in> set (map source_file alerts) \<longrightarrow>
            fst (create_alert rt self w to_a from_a subj content src prio)
              = Inr (fresh_alert rt w to_a from_a subj pv src prio)
          \<and> files (snd (create_alert rt self w to_a from_a subj content src prio)) = files w)
       \<and> (\<exists>alerts1.
            fst (load_alerts self (snd (create_alert rt self w to_a from_a subj content src prio))
                  (normalize_agent to_a)) = Inr alerts1
          \<and> distinct (map source_file alerts1)
          \<and> length (filter (\<lambda>a. source_file a = src) alerts1) = 1)
       \<and> files (snd (create_alert rt self
                        (snd (create_alert rt self w to_a from_a subj content src prio))
                        to_a from_b subj_b content_b src prio_b))
           = files (snd (create_alert rt self w to_a from_a subj content src prio))"
proof -
  let ?w1 = "snd (create_alert rt self w to_a from_a subj content src prio)"
  let ?a = "fresh_alert rt w to_a from_a subj pv src prio"
  have ret: "fst (create_alert rt self w to_a from_a subj content src prio) = Inr ?a"
    by (rule create_alert_returns(1) [OF pv load])
  have dup: "src \<in> set (map source_file alerts) \<Longrightarrow> files ?w1 = files w"
    by (rule create_alert_duplicate_files [OF load])
  have after: "\<exists>alerts1. fst (load_alerts self ?w1 (normalize_agent to_a)) = Inr alerts1
      \<and> distinct (map source_file alerts1)
      \<and> length (filter (\<lambda>a. source_file a = src) alerts1) = 1"
  proof (cases "src \<in> set (map source_file alerts)")
    case True
    have "fst (load_alerts self ?w1 (normalize_agent to_a)) = Inr alerts"
      using load_alerts_files_cong [OF dup [OF True]] load by simp
    then show ?thesis using inv count_distinct_key [OF inv True] by blast
  next
    case False
    have "files ?w1 (get_alert_file self (normalize_agent to_a)) =
        Some (Parsed (envelope (normalize_agent to_a) (isoformat_at rt (Suc (Suc (clock w))))
                       (alerts @ [?a])))"
      using create_alert_returns(2) [OF pv load, of from_a subj src prio] False by simp
    then have l: "fst (load_alerts self ?w1 (normalize_agent to_a)) = Inr (alerts @ [?a])"
      by (rule load_alerts_envelope)
    have s: "source_file ?a = src" by (simp add: fresh_alert_def)
    have "filter (\<lambda>a. source_file a = src) alerts = []"
      using False by (auto simp add: filter_empty_conv)
    then have "length (filter (\<lambda>a. source_file a = src) (alerts @ [?a])) = 1"
      using s by simp
    moreover have "distinct (map source_file (alerts @ [?a]))"
      using inv False s by simp
    ultimately show ?thesis using l by blast
  qed
  then obtain alerts1 where l1: "fst (load_alerts self ?w1 (normalize_agent to_a)) = Inr alerts1"
    and c1: "length (filter (\<lambda>a. source_file a = src) alerts1) = 1"
    by blast
  have "filter (\<lambda>a. source_file a = src) alerts1 \<noteq> []" using c1 by auto
  then have "src \<in> set (map source_file alerts1)" by (auto simp add: filter_empty_conv)
  then have again: "files (snd (create_alert rt self ?w1 to_a from_b subj_b content_b src prio_b))
      = files ?w1"
    by (rule create_alert_duplicate_files [OF l1])
  show ?thesis using ret dup after again by blast
qed

text \<open>
  A mailbox that holds the alert for \<open>/test.json\<close>: a second creation for that source
  file returns an alert and changes no file.
\<close>

theorem create_alert_one_per_source_file_witness:
  "fst (load_alerts demo_notifier demo_mailbox (normalize_agent ''ATLAS'')) = Inr [demo_alert]
   \<and> distinct (map source_file [demo_alert])
   \<and> extract_preview demo_runtime (JStr ''Again'') = Inr (JStr ''Again'')
   \<and> ''/test.json'' \<in> set (map source_file [demo_alert])
   \<and> fst (create_alert demo_runtime demo_notifier demo_mailbox ''ATLAS'' ''CLIO''
            (JStr ''Again'') (JStr ''Again'') ''/test.json'' ''HIGH'')
        = Inr (fresh_alert demo_runtime demo_mailbox ''ATLAS'' ''CLIO''
                 (JStr ''Again'') (JStr ''Again'') ''/test.json'' ''HIGH'')
   \<and> files (snd (create_alert demo_runtime demo_notifier demo_mailbox ''ATLAS'' ''CLIO''
                   (JStr ''Again'') (JStr ''Again'') ''/test.json'' ''HIGH''))
        = files demo_mailbox
   \<and> (\<exists>alerts1.
         fst (load_alerts demo_notifier
                (snd (create_alert demo_runtime demo_notifier demo_mailbox ''ATLAS'' ''CLIO''
                        (JStr ''Again'') (JStr ''Again'') ''/test.json'' ''HIGH''))
                (normalize_agent ''ATLAS'')) = Inr alerts1
       \<and> distinct (map source_file alerts1)
       \<and> length (filter (\<lambda>a. source_file a = ''/test.json'') alerts1) = 1)"
proof -
  have load: "fst (load_alerts demo_notifier demo_mailbox (normalize_agent ''ATLAS''))
      = Inr [demo_alert]"
    by code_simp
  have inv: "distinct (map source_file [demo_alert])" by simp
  have pv: "extract_preview demo_runtime (JStr ''Again'') = Inr (JStr ''Again'')" by simp
  have dup: "''/test.json'' \<in> set (map source_file [demo_alert])"
    by (simp add: demo_alert_def)
  from create_alert_one_per_source_file [OF load inv pv,
      of "''/test.json''" "''CLIO''" "JStr ''Again''" "''HIGH''"]
  show ?thesis using load pv dup by simp
qed

section \<open>Marking alerts as read\<close>

lemma mark_loop_all:
  "mark_loop None xs =
     (map (\<lambda>a. a\<lparr>read := True\<rparr>) xs, length (filter (\<lambda>a. \<not> read a) xs))"
  by (induction xs) auto

lemma mark_loop_absent:
  "\<forall>b \<in> set xs. \<not> (id_alert b = aid \<and> \<not> read b) \<Longrightarrow> mark_loop (Some aid) xs = (xs, 0)"
  by (induction xs) auto

lemma mark_loop_first:
  "\<forall>b \<in> set pre. \<not> (id_alert b = aid \<and> \<not> read b) \<Longrightarrow> id_alert a = aid \<Longrightarrow> \<not> read a \<Longrightarrow>
   mark_loop (Some aid) (pre @ a # post) = (pre @ a\<lparr>read := True\<rparr> # post, 1)"
  by (induction pre) auto

lemma no_transition_zip_same:
  "filter (\<lambda>p. \<not> read (fst p) \<and> read (snd p)) (zip xs xs) = []"
  by (induction xs) auto

lemma mark_loop_length: "length (fst (mark_loop alert_id xs)) = length xs"
  by (induction xs) (auto split: prod.splits)

text \<open>The loop changes \<open>read\<close> flags only: the source files stay as they are.\<close>

lemma mark_loop_source_files:
  "map source_file (fst (mark_loop alert_id xs)) = map source_file xs"
  by (induction xs) (auto split: prod.splits)

lemma mark_loop_count:
  "snd (mark_loop alert_id xs) =
     length (filter (\<lambda>p. \<not> read (fst p) \<and> read (snd p)) (zip xs (fst (mark_loop alert_id xs))))"
proof (induction xs)
  case Nil
  then show ?case by simp
next
  case (Cons a xs)
  obtain ys n where m: "mark_loop alert_id xs = (ys, n)" by (cases "mark_loop alert_id xs")
  then show ?case using Cons by (cases alert_id) (auto simp add: no_transition_zip_same)
qed

lemma mark_read_unfold:
  assumes "fst (load_alerts self w agent) = Inr alerts"
  shows "fst (mark_read rt self w agent alert_id) = Inr (snd (mark_loop alert_id alerts))"
    and "files (snd (mark_read rt self w agent alert_id)) =
           (files w)(get_alert_file self agent \<mapsto>
              Parsed (envelope agent (isoformat_at rt (clock w)) (fst (mark_loop alert_id alerts))))"
proof -
  obtain r w1 where l: "load_alerts self w agent = (r, w1)" by (cases "load_alerts self w agent")
  have r: "r = Inr alerts" using assms l by simp
  have w1: "files w1 = files w" "clock w1 = clock w"
    using files_load_alerts [of self w agent] clock_load_alerts [of self w agent] l by simp_all
  obtain ys n where m: "mark_loop alert_id alerts = (ys, n)" by (cases "mark_loop alert_id alerts")
  show "fst (mark_read rt self w agent alert_id) = Inr (snd (mark_loop alert_id alerts))"
    using l r m by (simp add: mark_read_def Let_def)
  show "files (snd (mark_read rt self w agent alert_id)) =
           (files w)(get_alert_file self agent \<mapsto>
              Parsed (envelope agent (isoformat_at rt (clock w)) (fst (mark_loop alert_id alerts))))"
    using l r m w1 by (simp add: mark_read_def Let_def files_save_alerts say_def)
qed

text \<open>
  C8. When the mailbox loads, \<open>mark_read\<close> returns a count \<open>n\<close> and writes the mailbox
  file with alerts \<open>alerts1\<close>, also when \<open>n\<close> is 0. \<open>alerts1\<close> has the alerts of the
  mailbox in their order, and \<open>n\<close> is the number of positions whose alert was unread
  before and is read after. Without an \<open>alert_id\<close> every alert is read afterwards. With an
  \<open>alert_id\<close>: if some unread alert has that id, the first of them in load order is marked
  and nothing else changes, and \<open>n\<close> is 1; otherwise nothing changes and \<open>n\<close> is 0.
\<close>

theorem mark_read_marks:
  assumes "fst (load_alerts self w agent) = Inr alerts"
  shows "\<exists>alerts1 n.
           fst (mark_read rt self w agent alert_id) = Inr n
         \<and> files (snd (mark_read rt self w agent alert_id)) =
             (files w)(get_alert_file self agent \<mapsto>
                Parsed (envelope agent (isoformat_at rt (clock w)) alerts1))
         \<and> length alerts1 = length alerts
         \<and> n = length (filter (\<lambda>p. \<not> read (fst p) \<and> read (snd p)) (zip alerts alerts1))
         \<and> (alert_id = None \<longrightarrow> alerts1 = map (\<lambda>a. a\<lparr>read := True\<rparr>) alerts)
         \<and> (\<forall>aid. alert_id = Some aid \<longrightarrow>
               (if \<exists>a \<in> set alerts. id_alert a = aid \<and> \<not> read a
                then \<exists>pre a post.
                       alerts = pre @ a # post
                     \<and> (\<forall>b \<in> set pre. \<not> (id_alert b = aid \<and> \<not> read b))
                     \<and> id_alert a = aid \<and> \<not> read a
                     \<and> alerts1 = pre @ a\<lparr>read := True\<rparr> # post \<and> n = 1
                else alerts1 = alerts \<and> n = 0))"
proof (intro exI conjI allI impI)
  let ?ys = "fst (mark_loop alert_id alerts)"
  let ?n = "snd (mark_loop alert_id alerts)"
  show "fst (mark_read rt self w agent alert_id) = Inr ?n"
    by (rule mark_read_unfold(1) [OF assms])
  show "files (snd (mark_read rt self w agent alert_id)) =
          (files w)(get_alert_file self agent \<mapsto>
             Parsed (envelope agent (isoformat_at rt (clock w)) ?ys))"
    by (rule mark_read_unfold(2) [OF assms])
  show "length ?ys = length alerts" by (rule mark_loop_length)
  show "?n = length (filter (\<lambda>p. \<not> read (fst p) \<and> read (snd p)) (zip alerts ?ys))"
    by (rule mark_loop_count)
  show "?ys = map (\<lambda>a. a\<lparr>read := True\<rparr>) alerts" if "alert_id = None"
    using that by (simp add: mark_loop_all)
  show "if \<exists>a \<in> set alerts. id_alert a = aid \<and> \<not> read a
       then \<exists>pre a post.
              alerts = pre @ a # post
            \<and> (\<forall>b \<in> set pre. \<not> (id_alert b = aid \<and> \<not> read b))
            \<and> id_alert a = aid \<and> \<not> read a
            \<and> ?ys = pre @ a\<lparr>read := True\<rparr> # post \<and> ?n = 1
       else ?ys = alerts \<and> ?n = 0" if some: "alert_id = Some aid" for aid
  proof (cases "\<exists>a \<in> set alerts. id_alert a = aid \<and> \<not> read a")
    case True
    then obtain pre a post where split: "alerts = pre @ a # post"
      and a: "id_alert a = aid \<and> \<not> read a"
      and pre: "\<forall>b \<in> set pre. \<not> (id_alert b = aid \<and> \<not> read b)"
      using split_list_first_prop [of alerts "\<lambda>a. id_alert a = aid \<and> \<not> read a"] by blast
    have "mark_loop alert_id alerts = (pre @ a\<lparr>read := True\<rparr> # post, 1)"
      using mark_loop_first [OF pre] a split some by simp
    then have "alerts = pre @ a # post
            \<and> (\<forall>b \<in> set pre. \<not> (id_alert b = aid \<and> \<not> read b))
            \<and> id_alert a = aid \<and> \<not> read a
            \<and> ?ys = pre @ a\<lparr>read := True\<rparr> # post \<and> ?n = 1"
      using split a pre by simp
    then have "\<exists>pre a post. alerts = pre @ a # post
            \<and> (\<forall>b \<in> set pre. \<not> (id_alert b = aid \<and> \<not> read b))
            \<and> id_alert a = aid \<and> \<not> read a
            \<and> ?ys = pre @ a\<lparr>read := True\<rparr> # post \<and> ?n = 1"
      by blast
    then show ?thesis using True by simp
  next
    case False
    then have "mark_loop (Some aid) alerts = (alerts, 0)" by (intro mark_loop_absent) blast
    then show ?thesis using False some by simp
  qed
qed

text \<open>
  Three alerts with the same id, the first one already read: marking by that id marks the
  second one only.
\<close>

theorem mark_read_marks_witness:
  "fst (load_alerts demo_notifier demo_mailbox3 ''ATLAS'')
     = Inr [demo_alert\<lparr>read := True\<rparr>,
            demo_alert\<lparr>source_file := ''/b.json''\<rparr>,
            demo_alert\<lparr>source_file := ''/c.json''\<rparr>]
   \<and> fst (mark_read demo_runtime demo_notifier demo_mailbox3 ''ATLAS'' (Some ''md5'')) = Inr 1
   \<and> fst (load_alerts demo_notifier
            (snd (mark_read demo_runtime demo_notifier demo_mailbox3 ''ATLAS'' (Some ''md5'')))
            ''ATLAS'')
       = Inr [demo_alert\<lparr>read := True\<rparr>,
              demo_alert\<lparr>source_file := ''/b.json'', read := True\<rparr>,
              demo_alert\<lparr>source_file := ''/c.json''\<rparr>]"
proof -
  have load: "fst (load_alerts demo_notifier demo_mailbox3 ''ATLAS'')
     = Inr [demo_alert\<lparr>read := True\<rparr>,
            demo_alert\<lparr>source_file := ''/b.json''\<rparr>,
            demo_alert\<lparr>source_file := ''/c.json''\<rparr>]"
    by code_simp
  have unread: "\<exists>a \<in> set [demo_alert\<lparr>read := True\<rparr>,
            demo_alert\<lparr>source_file := ''/b.json''\<rparr>,
            demo_alert\<lparr>source_file := ''/c.json''\<rparr>]. id_alert a = ''md5'' \<and> \<not> read a"
    by (simp add: demo_alert_def)
  have after: "fst (load_alerts demo_notifier
            (snd (mark_read demo_runtime demo_notifier demo_mailbox3 ''ATLAS'' (Some ''md5'')))
            ''ATLAS'')
       = Inr [demo_alert\<lparr>read := True\<rparr>,
              demo_alert\<lparr>source_file := ''/b.json'', read := True\<rparr>,
              demo_alert\<lparr>source_file := ''/c.json''\<rparr>]"
    by code_simp
  from mark_read_marks [OF load, of demo_runtime "Some ''md5''"] unread
  have "fst (mark_read demo_runtime demo_notifier demo_mailbox3 ''ATLAS'' (Some ''md5'')) = Inr 1"
    by auto
  then show ?thesis using load after by simp
qed

section \<open>Filtering and ordering\<close>

lemma mset_sort_reverse: "mset (sort_reverse key xs) = mset xs"
  by (simp add: sort_reverse_def)

lemma sorted_sort_reverse: "sorted (rev (map key (sort_reverse key xs)))"
  by (simp add: sort_reverse_def rev_map)

lemma sort_reverse_stable:
  "filter (\<lambda>a. key a = t) (sort_reverse key xs) = filter (\<lambda>a. key a = t) xs"
proof -
  have "filter (\<lambda>a. key a = t) (sort_reverse key xs)
      = rev (filter (\<lambda>a. key a = t) (sort_key key (rev xs)))"
    by (simp add: sort_reverse_def rev_filter)
  also have "\<dots> = rev (filter (\<lambda>a. key a = t) (rev xs))"
    by (simp only: sort_key_stable)
  also have "\<dots> = filter (\<lambda>a. key a = t) xs"
    by (simp add: rev_filter)
  finally show ?thesis .
qed

lemma get_alerts_unfold:
  assumes "fst (load_alerts self w agent) = Inr alerts" and "prio \<noteq> Some []"
  shows "fst (get_alerts self w agent unread_only prio)
           = Inr (sort_reverse timestamp (filter (passes unread_only prio) alerts))"
proof -
  obtain r w1 where l: "load_alerts self w agent = (r, w1)" by (cases "load_alerts self w agent")
  then have r: "r = Inr alerts" using assms(1) by simp
  have "(case prio of None \<Rightarrow> (if unread_only then filter (\<lambda>a. \<not> read a) alerts else alerts)
          | Some p \<Rightarrow> if p \<noteq> [] then filter (\<lambda>a. priority a = py_upper p)
                (if unread_only then filter (\<lambda>a. \<not> read a) alerts else alerts)
              else (if unread_only then filter (\<lambda>a. \<not> read a) alerts else alerts))
        = filter (passes unread_only prio) alerts"
    using assms(2) by (cases prio) (auto simp add: passes_def intro: filter_cong)
  then show ?thesis using l r by (simp add: get_alerts_def Let_def)
qed

lemma get_alerts_empty_priority:
  "get_alerts self w agent unread_only (Some []) = get_alerts self w agent unread_only None"
  by (simp add: get_alerts_def Let_def split: prod.splits sum.splits)

lemma sort_reverse_single: "sort_reverse key [x] = [x]"
  by (simp add: sort_reverse_def)

lemma unread_after_marking_one:
  assumes w1_def: "w1 = snd (create_alert rt self w to_a from_a subj_a content_a src_a prio_a)"
    and w2_def: "w2 = snd (create_alert rt self w1 to_a from_b subj_b content_b src_b prio_b)"
    and a_def: "a = fresh_alert rt w to_a from_a subj_a pv_a src_a prio_a"
    and b_def: "b = fresh_alert rt w1 to_a from_b subj_b pv_b src_b prio_b"
    and empty: "fst (load_alerts self w (normalize_agent to_a)) = Inr []"
    and pa: "extract_preview rt content_a = Inr pv_a"
    and pb: "extract_preview rt content_b = Inr pv_b"
    and src: "src_a \<noteq> src_b"
    and same: "get_alert_file self agent = get_alert_file self (normalize_agent to_a)"
    and aid: "aid = id_alert a \<or> aid = id_alert b"
  shows "fst (get_alerts self (snd (mark_read rt self w2 agent (Some aid))) agent True None)
           = Inr [if id_alert a = aid then b else a]"
proof -
  have l1: "fst (load_alerts self w1 (normalize_agent to_a)) = Inr [a]"
    using create_alert_appends [OF pa empty, of src_a from_a subj_a prio_a]
    by (simp add: w1_def a_def)
  have "src_b \<notin> set (map source_file [a])" using src by (simp add: a_def fresh_alert_def)
  from create_alert_appends [OF pb l1 this, of from_b subj_b prio_b]
  have l2: "fst (load_alerts self w2 agent) = Inr [a, b]"
    using load_alerts_same_file [OF same] by (simp add: w2_def b_def)
  have unread: "\<not> read a" "\<not> read b" by (simp_all add: a_def b_def fresh_alert_def)
  let ?marked = "fst (mark_loop (Some aid) [a, b])"
  have m: "?marked = (if id_alert a = aid then [a\<lparr>read := True\<rparr>, b] else [a, b\<lparr>read := True\<rparr>])"
    using aid unread by auto
  have "files (snd (mark_read rt self w2 agent (Some aid))) (get_alert_file self agent)
      = Some (Parsed (envelope agent (isoformat_at rt (clock w2)) ?marked))"
    using mark_read_unfold(2) [OF l2, of rt "Some aid"] by simp
  then have l3: "fst (load_alerts self (snd (mark_read rt self w2 agent (Some aid))) agent)
      = Inr ?marked"
    by (rule load_alerts_envelope)
  have "filter (passes True None) ?marked = [if id_alert a = aid then b else a]"
    using unread aid by (auto simp add: passes_def)
  then show ?thesis
    using get_alerts_unfold [OF l3, of None True] by (simp add: sort_reverse_single)
qed

text \<open>
  C9, as amended. When the mailbox loads and the priority filter is not the empty text,
  \<open>get_alerts\<close> returns exactly the loaded alerts that pass the filters (unread only, if
  asked; priority equal to the filter value in upper case, if one is given), newest
  timestamp first, alerts of equal timestamp in load order. The empty text as priority
  filters nothing, as \<open>None\<close> does. And after two creations into an empty mailbox with
  different source files and \<open>mark_read\<close> with the id of one of the two alerts, the unread
  alerts are exactly the other one.
\<close>

theorem get_alerts_filters_and_sorts:
  "(fst (load_alerts self w agent) = Inr alerts \<longrightarrow> prio \<noteq> Some [] \<longrightarrow>
      (\<exists>res. fst (get_alerts self w agent unread_only prio) = Inr res
            \<and> mset res = mset (filter (passes unread_only prio) alerts)
            \<and> sorted (rev (map timestamp res))
            \<and> (\<forall>t. filter (\<lambda>a. timestamp a = t) res
                      = filter (\<lambda>a. timestamp a = t) (filter (passes unread_only prio) alerts))))
   \<and> get_alerts self w agent unread_only (Some []) = get_alerts self w agent unread_only None
   \<and> (fst (load_alerts self w (normalize_agent to_a)) = Inr [] \<longrightarrow>
      extract_preview rt content_a = Inr pv_a \<longrightarrow>
      extract_preview rt content_b = Inr pv_b \<longrightarrow>
      src_a \<noteq> src_b \<longrightarrow>
      get_alert_file self agent = get_alert_file self (normalize_agent to_a) \<longrightarrow>
      w1 = snd (create_alert rt self w to_a from_a subj_a content_a src_a prio_a) \<longrightarrow>
      w2 = snd (create_alert rt self w1 to_a from_b subj_b content_b src_b prio_b) \<longrightarrow>
      a = fresh_alert rt w to_a from_a subj_a pv_a src_a prio_a \<longrightarrow>
      b = fresh_alert rt w1 to_a from_b subj_b pv_b src_b prio_b \<longrightarrow>
      aid = id_alert a \<or> aid = id_alert b \<longrightarrow>
      fst (get_alerts self (snd (mark_read rt self w2 agent (Some aid))) agent True None)
        = Inr [if id_alert a = aid then b else a])"
proof (intro conjI impI)
  assume l: "fst (load_alerts self w agent) = Inr alerts" and p: "prio \<noteq> Some []"
  let ?res = "sort_reverse timestamp (filter (passes unread_only prio) alerts)"
  have "fst (get_alerts self w agent unread_only prio) = Inr ?res"
    by (rule get_alerts_unfold [OF l p])
  moreover have "mset ?res = mset (filter (passes unread_only prio) alerts)"
    by (rule mset_sort_reverse)
  moreover have "sorted (rev (map timestamp ?res))" by (rule sorted_sort_reverse)
  moreover have "\<forall>t. filter (\<lambda>a. timestamp a = t) ?res
      = filter (\<lambda>a. timestamp a = t) (filter (passes unread_only prio) alerts)"
    by (simp only: sort_reverse_stable) simp
  ultimately show "\<exists>res. fst (get_alerts self w agent unread_only prio) = Inr res
                 \<and> mset res = mset (filter (passes unread_only prio) alerts)
                 \<and> sorted (rev (map timestamp res))
                 \<and> (\<forall>t. filter (\<lambda>a. timestamp a = t) res
                           = filter (\<lambda>a. timestamp a = t) (filter (passes unread_only prio) alerts))"
    by blast
next
  show "get_alerts self w agent unread_only (Some []) = get_alerts self w agent unread_only None"
    by (rule get_alerts_empty_priority)
next
  assume "w1 = snd (create_alert rt self w to_a from_a subj_a content_a src_a prio_a)"
    "w2 = snd (create_alert rt self w1 to_a from_b subj_b content_b src_b prio_b)"
    "a = fresh_alert rt w to_a from_a subj_a pv_a src_a prio_a"
    "b = fresh_alert rt w1 to_a from_b subj_b pv_b src_b prio_b"
    "fst (load_alerts self w (normalize_agent to_a)) = Inr []"
    "extract_preview rt content_a = Inr pv_a"
    "extract_preview rt content_b = Inr pv_b"
    "src_a \<noteq> src_b"
    "get_alert_file self agent = get_alert_file self (normalize_agent to_a)"
    "aid = id_alert a \<or> aid = id_alert b"
  then show "fst (get_alerts self (snd (mark_read rt self w2 agent (Some aid))) agent True None)
        = Inr [if id_alert a = aid then b else a]"
    by (rule unread_after_marking_one)
qed

text \<open>
  The two alerts of the test suite: listed newest first, and after marking the newer one
  by its id the unread alerts are the older one.
\<close>

theorem get_alerts_filters_and_sorts_witness:
  "fst (load_alerts demo_notifier empty_world (normalize_agent ''ATLAS'')) = Inr []
   \<and> extract_preview demo_runtime (JStr ''Test'') = Inr (JStr ''Test'')
   \<and> ''/unread.json'' \<noteq> ''/read.json''
   \<and> get_alert_file demo_notifier ''ATLAS'' = get_alert_file demo_notifier (normalize_agent ''ATLAS'')
   \<and> fst (load_alerts demo_notifier demo_second ''ATLAS'')
       = Inr [\<lparr>id_alert = ''md5'', timestamp = ''2026-01-22T12:00:0'', from_agent = ''FORGE'',
               to_agent = ''ATLAS'', subject = JStr ''Unread'', preview = JStr ''Test'',
               source_file = ''/unread.json'', priority = ''NORMAL'', read = False\<rparr>,
              \<lparr>id_alert = ''md5000'', timestamp = ''2026-01-22T12:00:0000'', from_agent = ''CLIO'',
               to_agent = ''ATLAS'', subject = JStr ''Will be read'', preview = JStr ''Test'',
               source_file = ''/read.json'', priority = ''NORMAL'', read = False\<rparr>]
   \<and> fst (get_alerts demo_notifier demo_second ''ATLAS'' False None)
       = Inr [\<lparr>id_alert = ''md5000'', timestamp = ''2026-01-22T12:00:0000'', from_agent = ''CLIO'',
               to_agent = ''ATLAS'', subject = JStr ''Will be read'', preview = JStr ''Test'',
               source_file = ''/read.json'', priority = ''NORMAL'', read = False\<rparr>,
              \<lparr>id_alert = ''md5'', timestamp = ''2026-01-22T12:00:0'', from_agent = ''FORGE'',
               to_agent = ''ATLAS'', subject = JStr ''Unread'', preview = JStr ''Test'',
               source_file = ''/unread.json'', priority = ''NORMAL'', read = False\<rparr>]
   \<and> fst (get_alerts demo_notifier
            (snd (mark_read demo_runtime demo_notifier demo_second ''ATLAS'' (Some ''md5000'')))
            ''ATLAS'' True None)
       = Inr [\<lparr>id_alert = ''md5'', timestamp = ''2026-01-22T12:00:0'', from_agent = ''FORGE'',
               to_agent = ''ATLAS'', subject = JStr ''Unread'', preview = JStr ''Test'',
               source_file = ''/unread.json'', priority = ''NORMAL'', read = False\<rparr>]"
proof -
  let ?a = "fresh_alert demo_runtime empty_world ''ATLAS'' ''FORGE''
              (JStr ''Unread'') (JStr ''Test'') ''/unread.json'' ''NORMAL''"
  let ?b = "fresh_alert demo_runtime demo_first ''ATLAS'' ''CLIO''
              (JStr ''Will be read'') (JStr ''Test'') ''/read.json'' ''NORMAL''"
  have empty: "fst (load_alerts demo_notifier empty_world (normalize_agent ''ATLAS'')) = Inr []"
    by code_simp
  have pv: "extract_preview demo_runtime (JStr ''Test'') = Inr (JStr ''Test'')" by simp
  have src: "''/unread.json'' \<noteq> ''/read.json''" by simp
  have same: "get_alert_file demo_notifier ''ATLAS''
      = get_alert_file demo_notifier (normalize_agent ''ATLAS'')"
    by code_simp
  have a: "?a = \<lparr>id_alert = ''md5'', timestamp = ''2026-01-22T12:00:0'', from_agent = ''FORGE'',
               to_agent = ''ATLAS'', subject = JStr ''Unread'', preview = JStr ''Test'',
               source_file = ''/unread.json'', priority = ''NORMAL'', read = False\<rparr>"
    by code_simp
  have b: "?b = \<lparr>id_alert = ''md5000'', timestamp = ''2026-01-22T12:00:0000'', from_agent = ''CLIO'',
               to_agent = ''ATLAS'', subject = JStr ''Will be read'', preview = JStr ''Test'',
               source_file = ''/read.json'', priority = ''NORMAL'', read = False\<rparr>"
    by code_simp
  have aid: "''md5000'' = id_alert ?a \<or> ''md5000'' = id_alert ?b" by (simp add: b)
  have loaded: "fst (load_alerts demo_notifier demo_second ''ATLAS'') = Inr [?a, ?b]"
    unfolding a b by code_simp
  have "fst (get_alerts demo_notifier
            (snd (mark_read demo_runtime demo_notifier demo_second ''ATLAS'' (Some ''md5000'')))
            ''ATLAS'' True None)
       = Inr [if id_alert ?a = ''md5000'' then ?b else ?a]"
    using get_alerts_filters_and_sorts [THEN conjunct2, THEN conjunct2, rule_format,
        OF empty pv pv src same demo_first_def demo_second_def refl refl aid]
    by simp
  then have scenario: "fst (get_alerts demo_notifier
            (snd (mark_read demo_runtime demo_notifier demo_second ''ATLAS'' (Some ''md5000'')))
            ''ATLAS'' True None) = Inr [?a]"
    by (simp add: a)
  have listed: "fst (get_alerts demo_notifier demo_second ''ATLAS'' False None) = Inr [?b, ?a]"
    unfolding a b by code_simp
  show ?thesis using empty pv src same loaded scenario listed unfolding a b by simp
qed

text \<open>
  C9 as the specification states it fails for the empty text as priority: it is not
  \<open>None\<close>, no alert has an empty priority, and the alert is returned.
\<close>

theorem get_alerts_empty_priority_keeps_all:
  "fst (get_alerts demo_notifier demo_mailbox ''ATLAS'' False (Some [])) = Inr [demo_alert]
   \<and> \<not> passes False (Some []) demo_alert"
  by code_simp

section \<open>Fan-out\<close>

lemma create_each_append:
  "create_each mk w (xs @ ys) acc =
     (case create_each mk w xs acc of
        (Inl e, w1) \<Rightarrow> (Inl e, w1)
      | (Inr acc1, w1) \<Rightarrow> create_each mk w1 ys acc1)"
  by (induction xs arbitrary: w acc) (auto split: prod.splits sum.splits)

lemma fanout_loop_flat:
  "fanout_loop mk w (map JStr rs) acc = create_each mk w (concat (map targets_of rs)) acc"
proof (induction rs arbitrary: w acc)
  case Nil
  then show ?case by simp
next
  case (Cons r rs)
  show ?case
  proof (cases "py_upper r = ''ALL'' \<or> py_upper r = ''TEAM_BRAIN''")
    case True
    then have t: "targets_of r = broadcast_agents"
      by (simp add: targets_of_def broadcast_agents_def)
    show ?thesis using True Cons.IH
      by (simp add: t create_each_append split: prod.splits sum.splits)
  next
    case False
    then have t: "targets_of r = [r]" by (simp add: targets_of_def)
    show ?thesis using False Cons.IH by (simp add: t split: prod.splits sum.splits)
  qed
qed

lemma all_str_map: "list_all is_str xs \<Longrightarrow> map (JStr \<circ> str_val) xs = xs"
proof (induction xs)
  case Nil
  then show ?case by simp
next
  case (Cons x xs)
  then show ?case by (cases x) simp_all
qed

lemma recipients_of_wrap:
  assumes "recipients_of (map_of kvs k) = Some rs"
  shows "wrap_str (dict_get kvs k (JArr [])) = JArr (map JStr rs)"
proof (cases "map_of kvs k")
  case None
  then show ?thesis using assms by (simp add: recipients_of_def dict_get_def)
next
  case (Some v)
  then show ?thesis using assms
    by (cases v) (auto simp add: recipients_of_def dict_get_def all_str_map split: if_splits)
qed

lemma extend_recipients:
  assumes "recipients_of (map_of kvs ''to'') = Some ts"
    and "recipients_of (map_of kvs ''cc'') = Some cs"
  shows "extend_list (wrap_str (dict_get kvs ''to'' (JArr [])))
           (wrap_str (dict_get kvs ''cc'' (JArr []))) = Inr (map JStr (ts @ cs))"
  by (simp add: recipients_of_wrap [OF assms(1)] recipients_of_wrap [OF assms(2)])

lemma create_alert_keeps_loadable:
  assumes "loadable self w agent"
  shows "loadable self (snd (create_alert rt self w to_a from_a subj content src prio)) agent"
proof (cases "extract_preview rt content")
  case (Inl e)
  have "files (ticked w) = files w" by (simp add: ticked_def)
  then show ?thesis using assms Inl load_alerts_files_cong [of "ticked w" w self agent]
    by (simp add: create_alert_preview_error loadable_def)
next
  case (Inr pv)
  let ?w1 = "snd (create_alert rt self w to_a from_a subj content src prio)"
  show ?thesis
  proof (cases "fst (load_alerts self w (normalize_agent to_a))")
    case (Inl e)
    have "files ?w1 = files w" by (rule create_alert_load_error(2) [OF Inr Inl])
    then show ?thesis using assms load_alerts_files_cong [of ?w1 w self agent]
      by (simp add: loadable_def)
  next
    case (Inr alerts)
    note f = create_alert_returns(2) [OF \<open>extract_preview rt content = Inr pv\<close> Inr, of from_a subj src prio]
    show ?thesis
    proof (cases "src \<notin> set (map source_file alerts)
                  \<and> get_alert_file self agent = get_alert_file self (normalize_agent to_a)")
      case True
      then have "files ?w1 (get_alert_file self agent) =
          Some (Parsed (envelope (normalize_agent to_a) (isoformat_at rt (Suc (Suc (clock w))))
                         (alerts @ [fresh_alert rt w to_a from_a subj pv src prio])))"
        using f by simp
      then show ?thesis using load_alerts_envelope by (simp add: loadable_def)
    next
      case False
      then have "files ?w1 (get_alert_file self agent) = files w (get_alert_file self agent)"
        using f by auto
      then show ?thesis using assms load_alerts_file_cong [of ?w1 self agent w]
        by (simp add: loadable_def)
    qed
  qed
qed

lemma loadable_Inr: "loadable self w agent \<Longrightarrow> \<exists>alerts. fst (load_alerts self w agent) = Inr alerts"
  by (cases "fst (load_alerts self w agent)") (simp_all add: loadable_def)

lemma create_each_succeeds:
  assumes "extract_preview rt body = Inr pv"
    and "\<forall>t \<in> set ts. loadable self w (normalize_agent t)"
  shows "\<exists>alerts w1.
           create_each (call_create_alert rt self (JStr from_a) subj body src (JStr prio)) w ts acc
             = (Inr (acc @ alerts), w1)
         \<and> map to_agent alerts = map normalize_agent ts
         \<and> (\<forall>a \<in> set alerts. from_agent a = normalize_agent from_a \<and> subject a = subj
               \<and> preview a = pv \<and> source_file a = src
               \<and> priority a = validate_priority prio \<and> \<not> read a)"
  using assms(2)
proof (induction ts arbitrary: w acc)
  case Nil
  then show ?case by simp
next
  case (Cons t ts)
  let ?mk = "call_create_alert rt self (JStr from_a) subj body src (JStr prio)"
  obtain alerts where l: "fst (load_alerts self w (normalize_agent t)) = Inr alerts"
    using Cons.prems loadable_Inr by fastforce
  let ?a = "fresh_alert rt w t from_a subj pv src prio"
  obtain r w1 where c: "create_alert rt self w t from_a subj body src prio = (r, w1)"
    by (cases "create_alert rt self w t from_a subj body src prio")
  have r: "r = Inr ?a" using create_alert_returns(1) [OF assms(1) l, of from_a subj src prio] c by simp
  have "\<forall>u \<in> set ts. loadable self w1 (normalize_agent u)"
    using Cons.prems create_alert_keeps_loadable [of self w _ rt t from_a subj body src prio] c
    by auto
  from Cons.IH [OF this, of "acc @ [?a]"]
  obtain rest w2 where rest: "create_each ?mk w1 ts (acc @ [?a]) = (Inr ((acc @ [?a]) @ rest), w2)"
    and tos: "map to_agent rest = map normalize_agent ts"
    and fields: "\<forall>a \<in> set rest. from_agent a = normalize_agent from_a \<and> subject a = subj
               \<and> preview a = pv \<and> source_file a = src
               \<and> priority a = validate_priority prio \<and> \<not> read a"
    by blast
  have "create_each ?mk w (t # ts) acc = (Inr (acc @ (?a # rest)), w2)"
    using c r rest by (simp add: call_create_alert_def)
  moreover have "map to_agent (?a # rest) = map normalize_agent (t # ts)"
    using tos by (simp add: fresh_alert_def)
  moreover have "\<forall>a \<in> set (?a # rest). from_agent a = normalize_agent from_a \<and> subject a = subj
               \<and> preview a = pv \<and> source_file a = src
               \<and> priority a = validate_priority prio \<and> \<not> read a"
    using fields by (simp add: fresh_alert_def)
  ultimately show ?case by blast
qed

text \<open>
  C5. Let the message file hold an object whose \<open>to\<close> and \<open>cc\<close> are absent, a text or a
  list of texts, with recipients \<open>ts\<close> and \<open>cs\<close>, whose \<open>from\<close> and \<open>priority\<close> are texts
  where present and whose body has a preview; and let the mailbox of every target load.
  Then \<open>create_alerts_from_synapse_message\<close> is the sequence of calls of \<open>create_alert\<close>,
  one for each target of the recipients \<open>ts @ cs\<close> in their order, where a recipient that
  is \<open>ALL\<close> or \<open>TEAM_BRAIN\<close> in upper case has the six agents as targets and any other
  recipient has itself; it returns one alert per target, in that order, addressed to the
  normalised target.
\<close>

theorem fanout_one_alert_per_target:
  assumes msg: "files w message_path = Some (Parsed (JObj kvs))"
    and to: "recipients_of (map_of kvs ''to'') = Some ts"
    and cc: "recipients_of (map_of kvs ''cc'') = Some cs"
    and sender: "dict_get kvs ''from'' (JStr ''UNKNOWN'') = JStr from_a"
    and level: "dict_get kvs ''priority'' (JStr ''NORMAL'') = JStr prio"
    and body: "extract_preview rt (dict_get kvs ''body'' (dict_get kvs ''content'' (JStr []))) = Inr pv"
    and boxes: "\<forall>t \<in> set (concat (map targets_of (ts @ cs))). loadable self w (normalize_agent t)"
  shows "create_alerts_from_synapse_message rt self w message_path
           = create_each
               (call_create_alert rt self (JStr from_a)
                  (dict_get kvs ''subject'' (JStr ''No Subject''))
                  (dict_get kvs ''body'' (dict_get kvs ''content'' (JStr [])))
                  message_path (JStr prio))
               w (concat (map targets_of (ts @ cs))) []
       \<and> (\<exists>alerts w1.
             create_alerts_from_synapse_message rt self w message_path = (Inr alerts, w1)
           \<and> map to_agent alerts = map normalize_agent (concat (map targets_of (ts @ cs)))
           \<and> (\<forall>a \<in> set alerts. from_agent a = normalize_agent from_a
                 \<and> source_file a = message_path \<and> preview a = pv))"
proof -
  let ?mk = "call_create_alert rt self (JStr from_a)
                  (dict_get kvs ''subject'' (JStr ''No Subject''))
                  (dict_get kvs ''body'' (dict_get kvs ''content'' (JStr [])))
                  message_path (JStr prio)"
  have flat: "create_alerts_from_synapse_message rt self w message_path
      = create_each ?mk w (concat (map targets_of (ts @ cs))) []"
    using msg extend_recipients [OF to cc] sender level
    by (simp add: create_alerts_from_synapse_message_def Let_def fanout_loop_flat del: map_append)
  from create_each_succeeds [OF body boxes, of from_a _ message_path prio "[]"]
  show ?thesis using flat by (simp del: map_append) blast
qed

text \<open>The message to \<open>TEAM_BRAIN\<close> gives one alert for each of the six agents.\<close>

theorem fanout_one_alert_per_target_witness:
  "files demo_broadcast ''/broadcast.json'' = Some (Parsed (JObj demo_message))
   \<and> recipients_of (map_of demo_message ''to'') = Some [''TEAM_BRAIN'']
   \<and> recipients_of (map_of demo_message ''cc'') = Some []
   \<and> concat (map targets_of ([''TEAM_BRAIN''] @ []))
       = [''FORGE'', ''ATLAS'', ''CLIO'', ''NEXUS'', ''IRIS'', ''PORTER'']
   \<and> list_all (\<lambda>t. loadable demo_notifier demo_broadcast (normalize_agent t))
         [''FORGE'', ''ATLAS'', ''CLIO'', ''NEXUS'', ''IRIS'', ''PORTER'']
   \<and> (\<exists>alerts w1.
         create_alerts_from_synapse_message demo_runtime demo_notifier demo_broadcast
           ''/broadcast.json'' = (Inr alerts, w1)
       \<and> map to_agent alerts = [''FORGE'', ''ATLAS'', ''CLIO'', ''NEXUS'', ''IRIS'', ''PORTER''])"
proof -
  have msg: "files demo_broadcast ''/broadcast.json'' = Some (Parsed (JObj demo_message))"
    by (simp add: demo_broadcast_def world_with_def)
  have to: "recipients_of (map_of demo_message ''to'') = Some [''TEAM_BRAIN'']"
    by (simp add: demo_message_def recipients_of_def)
  have cc: "recipients_of (map_of demo_message ''cc'') = Some []"
    by (simp add: demo_message_def recipients_of_def)
  have sender: "dict_get demo_message ''from'' (JStr ''UNKNOWN'') = JStr ''FORGE''"
    by (simp add: demo_message_def dict_get_def)
  have level: "dict_get demo_message ''priority'' (JStr ''NORMAL'') = JStr ''NORMAL''"
    by (simp add: demo_message_def dict_get_def)
  have body: "extract_preview demo_runtime
      (dict_get demo_message ''body'' (dict_get demo_message ''content'' (JStr []))) = Inr (JStr ''Hello'')"
    by (simp add: demo_message_def dict_get_def)
  have targets: "concat (map targets_of ([''TEAM_BRAIN''] @ []))
       = [''FORGE'', ''ATLAS'', ''CLIO'', ''NEXUS'', ''IRIS'', ''PORTER'']"
    by code_simp
  have names: "map normalize_agent [''FORGE'', ''ATLAS'', ''CLIO'', ''NEXUS'', ''IRIS'', ''PORTER'']
       = [''FORGE'', ''ATLAS'', ''CLIO'', ''NEXUS'', ''IRIS'', ''PORTER'']"
    by code_simp
  have loadable6: "list_all (\<lambda>t. loadable demo_notifier demo_broadcast (normalize_agent t))
          [''FORGE'', ''ATLAS'', ''CLIO'', ''NEXUS'', ''IRIS'', ''PORTER'']"
    by code_simp
  then have boxes6: "\<forall>t \<in> set [''FORGE'', ''ATLAS'', ''CLIO'', ''NEXUS'', ''IRIS'', ''PORTER''].
          loadable demo_notifier demo_broadcast (normalize_agent t)"
    by (simp only: list_all_iff)
  then have boxes: "\<forall>t \<in> set (concat (map targets_of ([''TEAM_BRAIN''] @ []))).
          loadable demo_notifier demo_broadcast (normalize_agent t)"
    by (simp only: targets)
  note run = fanout_one_alert_per_target [OF msg to cc sender level body boxes,
      THEN conjunct2, unfolded targets names]
  from run obtain alerts w1 where
    "create_alerts_from_synapse_message demo_runtime demo_notifier demo_broadcast
       ''/broadcast.json'' = (Inr alerts, w1)"
    and "map to_agent alerts = [''FORGE'', ''ATLAS'', ''CLIO'', ''NEXUS'', ''IRIS'', ''PORTER'']"
    by (elim exE conjE)
  then have "\<exists>alerts w1.
         create_alerts_from_synapse_message demo_runtime demo_notifier demo_broadcast
           ''/broadcast.json'' = (Inr alerts, w1)
       \<and> map to_agent alerts = [''FORGE'', ''ATLAS'', ''CLIO'', ''NEXUS'', ''IRIS'', ''PORTER'']"
    by (intro exI conjI)
  then show ?thesis using msg to cc targets loadable6 by (intro conjI)
qed

end
